theory Spec2Isabelle
  imports Complex_Main
begin

section \<open>Data model\<close>

text \<open>
  The tables of the relational schema (merchants, payments, refunds, webhook_logs,
  idempotency_keys) are lists of rows in insertion order. A nullable column is an
  \<open>option\<close>; timestamps are milliseconds as integers; amounts are integers (the
  columns are INTEGER). The refunds table carries the \<open>idempotency_key\<close> column of the
  migration in the integration guide (VARCHAR(255) UNIQUE). Columns that no code path
  reads or writes (merchant name, the text of a webhook response body) are left out.
\<close>

record merchant_row =
  m_id :: string
  m_api_key :: string
  m_webhook_url :: "string option"
  m_webhook_secret :: "string option"

record payment_row =
  p_id :: string
  p_merchant_id :: "string option"
  p_order_id :: string
  p_amount :: int
  p_status :: string
  p_captured :: bool
  p_method :: "string option"
  p_created_at :: int
  p_updated_at :: int

record refund_row =
  r_id :: string
  r_payment_id :: string
  r_merchant_id :: "string option"
  r_amount :: int
  r_reason :: "string option"
  r_status :: string
  r_idempotency_key :: "string option"
  r_created_at :: int
  r_processed_at :: "int option"

text \<open>The bodies of the HTTP responses the handlers send, one constructor per shape.\<close>

datatype json_body =
    PaymentJson string "string option" "int option" string
  | RefundCreatedJson string string "int option" string
  | RefundJson string string int string int
  | ErrorJson string string
  | InternalErrorJson
  | RefundFailedJson
  | WebhookNotFoundJson
  | RetryScheduledJson string string string
  | ErrorMessageJson

record http_response =
  res_status :: nat
  res_body :: json_body

record idempotency_row =
  ik_key :: string
  ik_merchant_id :: string
  ik_response_body :: json_body
  ik_created_at :: int
  ik_expires_at :: int

text \<open>
  The webhook payload \<open>{event, timestamp, data: {payment}}\<close>; the payment is absent when
  the lookup found no row (JSON.stringify drops an undefined member).
\<close>

record webhook_payload =
  pl_event :: string
  pl_timestamp :: int
  pl_payment :: "payment_row option"

record webhook_log_row =
  wl_id :: string
  wl_merchant_id :: "string option"
  wl_event :: string
  wl_payload :: webhook_payload
  wl_status :: string
  wl_attempts :: int
  wl_last_attempt_at :: "int option"
  wl_next_retry_at :: "int option"
  wl_response_code :: "int option"
  wl_created_at :: int

text \<open>
  The data of a job on the webhook queue. \<open>attempt\<close> is absent on the jobs the payment
  and refund workers enqueue; a job is queued together with its delay in milliseconds.
\<close>

record webhook_job =
  wj_event :: string
  wj_paymentId :: "string option"
  wj_refundId :: "string option"
  wj_merchantId :: "string option"
  wj_attempt :: "int option"

record webhook_post =
  wp_url :: string
  wp_payload :: webhook_payload
  wp_signature :: string

text \<open>
  The whole system: the five tables, the three queues (payment and refund jobs carry one
  identifier each) and the trace of the webhook POSTs sent so far.
\<close>

record system =
  merchants :: "merchant_row list"
  payments :: "payment_row list"
  refunds :: "refund_row list"
  idempotency_keys :: "idempotency_row list"
  webhook_logs :: "webhook_log_row list"
  payment_queue :: "string list"
  refund_queue :: "string list"
  webhook_queue :: "(webhook_job \<times> int) list"
  http_sent :: "webhook_post list"

text \<open>
  What one invocation of a handler or worker reads from outside the program: the
  environment variables it tests, the clock (\<open>Date.now()\<close> and SQL \<open>NOW()\<close>), the value
  \<open>uuidv4()\<close> or \<open>gen_random_uuid()\<close> returns, the value of \<open>Math.random()\<close>, and
  whether the queue server accepts an \<open>add\<close>. The database is taken to be reachable;
  an INSERT fails only by violating a constraint of the schema.
\<close>

record ambient =
  env_test_mode :: bool
  env_test_payment_success :: bool
  env_webhook_retry_intervals_test :: bool
  a_now :: int
  a_uuid :: string
  a_random :: real
  a_queue_up :: bool

text \<open>
  A JavaScript \<open>Error\<close>: its message and the optional \<open>code\<close> and \<open>statusCode\<close>
  properties the service attaches. The repository wraps a driver error in a plain Error
  whose message starts with a fixed prefix; the driver's own text is not modelled.
\<close>

datatype error = Error string "string option" "nat option"




section \<open>Schema constraints on INSERT\<close>

text \<open>
  What the schema makes an INSERT fail on: primary keys, NOT NULL, UNIQUE, the width of
  VARCHAR columns and the range of INTEGER. Foreign keys are not checked: every insert
  of the program refers to a row it has just read, or to the authenticated merchant.
\<close>

definition int4 :: "int \<Rightarrow> bool" where
  "int4 n = (- 2147483648 \<le> n \<and> n \<le> 2147483647)"

text \<open>payments: id VARCHAR(64) PRIMARY KEY, order_id VARCHAR(255) NOT NULL, amount INTEGER
  NOT NULL, status VARCHAR(20), method VARCHAR(50).\<close>

definition payment_insert_ok ::
  "system \<Rightarrow> string \<Rightarrow> string option \<Rightarrow> int option \<Rightarrow> string option \<Rightarrow> bool" where
  "payment_insert_ok s pid order_id amount method =
     (length pid \<le> 64 \<and> pid \<notin> set (map p_id (payments s)) \<and>
      (case order_id of None \<Rightarrow> False | Some ord \<Rightarrow> length ord \<le> 255) \<and>
      (case amount of None \<Rightarrow> False | Some n \<Rightarrow> int4 n) \<and>
      (case method of None \<Rightarrow> True | Some m \<Rightarrow> length m \<le> 50))"

text \<open>refunds: id VARCHAR(64) PRIMARY KEY, amount INTEGER NOT NULL, idempotency_key
  VARCHAR(255) UNIQUE (NULL keys never conflict).\<close>

definition refund_insert_ok ::
  "system \<Rightarrow> string \<Rightarrow> int option \<Rightarrow> string option \<Rightarrow> bool" where
  "refund_insert_ok s rid amount key =
     (length rid \<le> 64 \<and> rid \<notin> set (map r_id (refunds s)) \<and>
      (case amount of None \<Rightarrow> False | Some n \<Rightarrow> int4 n) \<and>
      (case key of None \<Rightarrow> True
       | Some k \<Rightarrow> length k \<le> 255 \<and> Some k \<notin> set (map r_idempotency_key (refunds s))))"

text \<open>idempotency_keys: key VARCHAR(255), PRIMARY KEY (key, merchant_id).\<close>

definition idempotency_insert_ok :: "system \<Rightarrow> string \<Rightarrow> string \<Rightarrow> bool" where
  "idempotency_insert_ok s key merchantId =
     (length key \<le> 255 \<and>
      (key, merchantId) \<notin> set (map (\<lambda>r. (ik_key r, ik_merchant_id r)) (idempotency_keys s)))"

section \<open>RefundRepository\<close>

text \<open>\<open>SELECT * FROM payments WHERE id = $1\<close>, then \<open>rows[0] || null\<close>.\<close>

definition getPaymentById :: "system \<Rightarrow> string \<Rightarrow> payment_row option" where
  "getPaymentById s paymentId = find (\<lambda>p. p_id p = paymentId) (payments s)"

text \<open>\<open>SELECT SUM(amount) ... WHERE payment_id = $1 AND status IN ('processed',
  'pending')\<close>; the sum over no rows is NULL, read as 0.\<close>

definition getTotalRefundedAmount :: "system \<Rightarrow> string \<Rightarrow> int" where
  "getTotalRefundedAmount s paymentId =
     sum_list (map r_amount
       (filter (\<lambda>r. r_payment_id r = paymentId \<and>
                     (r_status r = ''processed'' \<or> r_status r = ''pending''))
          (refunds s)))"

text \<open>The columns \<open>id, payment_id, amount, status, created_at\<close> that the repository
  selects and returns.\<close>

record refund_view =
  rv_id :: string
  rv_payment_id :: string
  rv_amount :: int
  rv_status :: string
  rv_created_at :: int

definition refund_columns :: "refund_row \<Rightarrow> refund_view" where
  "refund_columns r =
     \<lparr>rv_id = r_id r, rv_payment_id = r_payment_id r, rv_amount = r_amount r,
      rv_status = r_status r, rv_created_at = r_created_at r\<rparr>"

text \<open>\<open>SELECT ... FROM refunds WHERE idempotency_key = $1 LIMIT 1\<close>.\<close>

definition findRefundByIdempotencyKey :: "system \<Rightarrow> string \<Rightarrow> refund_view option" where
  "findRefundByIdempotencyKey s idempotencyKey =
     map_option refund_columns
       (find (\<lambda>r. r_idempotency_key r = Some idempotencyKey) (refunds s))"

definition createRefund ::
  "ambient \<Rightarrow> system \<Rightarrow> string \<Rightarrow> string \<Rightarrow> string option \<Rightarrow> int \<Rightarrow> string \<Rightarrow> string \<Rightarrow>
   string option \<Rightarrow> error + (refund_view \<times> system)" where
  "createRefund a s rid paymentId merchantId amount reason status idempotencyKey =
     (if refund_insert_ok s rid (Some amount) idempotencyKey then
        (let row = \<lparr>r_id = rid, r_payment_id = paymentId, r_merchant_id = merchantId,
                    r_amount = amount, r_reason = Some reason, r_status = status,
                    r_idempotency_key = idempotencyKey, r_created_at = a_now a,
                    r_processed_at = None\<rparr>
         in Inr (refund_columns row, s\<lparr>refunds := refunds s @ [row]\<rparr>))
      else Inl (Error ''Failed to create refund'' None None))"

section \<open>RefundService\<close>

definition createError :: "string \<Rightarrow> string \<Rightarrow> nat \<Rightarrow> error" where
  "createError code description statusCode = Error description (Some code) (Some statusCode)"

text \<open>\<open>'rfnd_' + uuidv4().replace(/-/g, '').substring(0, 16)\<close>.\<close>

definition generateRefundId :: "ambient \<Rightarrow> string" where
  "generateRefundId a = ''rfnd_'' @ take 16 (filter (\<lambda>c. c \<noteq> CHR ''-'') (a_uuid a))"

text \<open>A key is used only when it is truthy: neither absent nor the empty string.\<close>

definition truthy :: "string option \<Rightarrow> bool" where
  "truthy k = (case k of None \<Rightarrow> False | Some v \<Rightarrow> v \<noteq> [])"

definition idempotent_hit :: "system \<Rightarrow> string option \<Rightarrow> refund_view option" where
  "idempotent_hit s idempotencyKey =
     (case idempotencyKey of
        None \<Rightarrow> None
      | Some k \<Rightarrow> if k = [] then None else findRefundByIdempotencyKey s k)"

text \<open>
  \<open>processRefund\<close> returns the refund or throws, and leaves the system as the second
  component. The checks come in the order of the source; an \<open>add\<close> refused by the queue
  throws after the row was inserted.
\<close>

definition processRefund ::
  "ambient \<Rightarrow> system \<Rightarrow> string \<Rightarrow> int \<Rightarrow> string \<Rightarrow> string option \<Rightarrow>
   (error + refund_view) \<times> system" where
  "processRefund a s paymentId requestedAmount reason idempotencyKey =
     (case idempotent_hit s idempotencyKey of
        Some existingRefund \<Rightarrow> (Inr existingRefund, s)
      | None \<Rightarrow>
         (case getPaymentById s paymentId of
            None \<Rightarrow> (Inl (createError ''PAYMENT_NOT_FOUND'' ''Payment not found'' 404), s)
          | Some payment \<Rightarrow>
             if p_status payment \<noteq> ''success'' then
               (Inl (createError ''BAD_REQUEST_ERROR'' ''Payment not in refundable state'' 400), s)
             else if requestedAmount + getTotalRefundedAmount s paymentId > p_amount payment then
               (Inl (createError ''REFUND_AMOUNT_EXCEEDS_LIMIT''
                       ''Refund amount exceeds available amount'' 400), s)
             else if requestedAmount \<le> 0 then
               (Inl (createError ''INVALID_REFUND_AMOUNT''
                       ''Refund amount must be greater than 0'' 400), s)
             else
               (case createRefund a s (generateRefundId a) paymentId (p_merchant_id payment)
                       requestedAmount reason ''pending'' idempotencyKey of
                  Inl e \<Rightarrow> (Inl e, s)
                | Inr (refund, s') \<Rightarrow>
                    if a_queue_up a then
                      (Inr refund, s'\<lparr>refund_queue := refund_queue s' @ [rv_id refund]\<rparr>)
                    else (Inl (Error ''Queue unavailable'' None None), s'))))"

section \<open>RefundController\<close>






section \<open>API server: payments and refunds\<close>

text \<open>\<open>'pay_' + uuidv4().replace(/-/g, '').substring(0, 15)\<close>, and the same with
  \<open>'rfnd_'\<close> in the refund route.\<close>

definition short_id :: "string \<Rightarrow> ambient \<Rightarrow> string" where
  "short_id prefix a = prefix @ take 15 (filter (\<lambda>c. c \<noteq> CHR ''-'') (a_uuid a))"

text \<open>\<open>SELECT response_body FROM idempotency_keys WHERE key = $1 AND merchant_id = $2\<close>,
  run only for a truthy header; the expiry column is not consulted.\<close>

definition cached_response :: "system \<Rightarrow> string option \<Rightarrow> string \<Rightarrow> json_body option" where
  "cached_response s idempotencyKey merchantId =
     (case idempotencyKey of
        None \<Rightarrow> None
      | Some k \<Rightarrow>
          if k = [] then None
          else map_option ik_response_body
                 (find (\<lambda>r. ik_key r = k \<and> ik_merchant_id r = merchantId)
                    (idempotency_keys s)))"

text \<open>
  \<open>POST /api/v1/payments\<close> for the authenticated merchant. Every statement of the
  handler sits in one \<open>try\<close>; whatever throws is answered with 500, and the writes made
  before it stay (there is no transaction).
\<close>

definition post_payments ::
  "ambient \<Rightarrow> system \<Rightarrow> string \<Rightarrow> string option \<Rightarrow> int option \<Rightarrow> string option \<Rightarrow>
   string option \<Rightarrow> http_response \<times> system" where
  "post_payments a s merchantId order_id amount method idempotencyKey =
     (case cached_response s idempotencyKey merchantId of
        Some response_body \<Rightarrow> (\<lparr>res_status = 200, res_body = response_body\<rparr>, s)
      | None \<Rightarrow>
         (let paymentId = short_id ''pay_'' a in
          if \<not> payment_insert_ok s paymentId order_id amount method then
            (\<lparr>res_status = 500, res_body = InternalErrorJson\<rparr>, s)
          else
            (let row = \<lparr>p_id = paymentId, p_merchant_id = Some merchantId,
                        p_order_id = (case order_id of Some ord \<Rightarrow> ord | None \<Rightarrow> []),
                        p_amount = (case amount of Some n \<Rightarrow> n | None \<Rightarrow> 0),
                        p_status = ''pending'', p_captured = False, p_method = method,
                        p_created_at = a_now a, p_updated_at = a_now a\<rparr>;
                 s1 = s\<lparr>payments := payments s @ [row]\<rparr>;
                 responseData = PaymentJson paymentId order_id amount ''pending''
             in if truthy idempotencyKey \<and>
                   \<not> idempotency_insert_ok s1 (case idempotencyKey of Some k \<Rightarrow> k | None \<Rightarrow> [])
                        merchantId then
                  (\<lparr>res_status = 500, res_body = InternalErrorJson\<rparr>, s1)
                else
                  (let s2 = (if truthy idempotencyKey then
                               s1\<lparr>idempotency_keys := idempotency_keys s1 @
                                    [\<lparr>ik_key = (case idempotencyKey of Some k \<Rightarrow> k | None \<Rightarrow> []),
                                      ik_merchant_id = merchantId,
                                      ik_response_body = responseData,
                                      ik_created_at = a_now a,
                                      ik_expires_at = a_now a + 86400000\<rparr>]\<rparr>
                             else s1)
                   in if a_queue_up a then
                        (\<lparr>res_status = 201, res_body = responseData\<rparr>,
                         s2\<lparr>payment_queue := payment_queue s2 @ [paymentId]\<rparr>)
                      else (\<lparr>res_status = 500, res_body = InternalErrorJson\<rparr>, s2)))))"

text \<open>
  \<open>POST /api/v1/payments/:payment_id/refunds\<close> as the server file has it. The route runs
  behind the authentication middleware, so the handler is given the caller's merchant
  id; its body never reads it. A missing amount is \<open>undefined\<close>: the sum is NaN, the
  comparison false, and the INSERT then violates NOT NULL.
\<close>

definition post_refunds ::
  "ambient \<Rightarrow> system \<Rightarrow> string \<Rightarrow> string \<Rightarrow> int option \<Rightarrow> string option \<Rightarrow>
   http_response \<times> system" where
  "post_refunds a s merchantId payment_id requestedAmount reason =
     (case find (\<lambda>p. p_id p = payment_id) (payments s) of
        None \<Rightarrow>
          (\<lparr>res_status = 400, res_body = ErrorJson ''BAD_REQUEST_ERROR''
              ''Only successful payments can be refunded''\<rparr>, s)
      | Some payment \<Rightarrow>
          if p_status payment \<noteq> ''success'' then
            (\<lparr>res_status = 400, res_body = ErrorJson ''BAD_REQUEST_ERROR''
                ''Only successful payments can be refunded''\<rparr>, s)
          else if (case requestedAmount of
                     None \<Rightarrow> False
                   | Some n \<Rightarrow> n + getTotalRefundedAmount s payment_id > p_amount payment) then
            (\<lparr>res_status = 400, res_body = ErrorJson ''BAD_REQUEST_ERROR''
                ''Refund amount exceeds available balance''\<rparr>, s)
          else
            (let refundId = short_id ''rfnd_'' a in
             if \<not> refund_insert_ok s refundId requestedAmount None then
               (\<lparr>res_status = 500, res_body = RefundFailedJson\<rparr>, s)
             else
               (let row = \<lparr>r_id = refundId, r_payment_id = payment_id,
                           r_merchant_id = p_merchant_id payment,
                           r_amount = (case requestedAmount of Some n \<Rightarrow> n | None \<Rightarrow> 0),
                           r_reason = reason, r_status = ''pending'',
                           r_idempotency_key = None, r_created_at = a_now a,
                           r_processed_at = None\<rparr>;
                    s1 = s\<lparr>refunds := refunds s @ [row]\<rparr>
                in if a_queue_up a then
                     (\<lparr>res_status = 201,
                       res_body = RefundCreatedJson refundId payment_id requestedAmount
                                    ''pending''\<rparr>,
                      s1\<lparr>refund_queue := refund_queue s1 @ [refundId]\<rparr>)
                   else (\<lparr>res_status = 500, res_body = RefundFailedJson\<rparr>, s1))))"

section \<open>Payment and refund workers\<close>

text \<open>\<open>UPDATE payments SET status = $1, updated_at = NOW() WHERE id = $2\<close>.\<close>

definition update_payment_status :: "ambient \<Rightarrow> string \<Rightarrow> string \<Rightarrow> system \<Rightarrow> system" where
  "update_payment_status a status paymentId s =
     s\<lparr>payments := map (\<lambda>p. if p_id p = paymentId
                               then p\<lparr>p_status := status, p_updated_at := a_now a\<rparr> else p)
                       (payments s)\<rparr>"

text \<open>
  The outcome: fixed by the environment in test mode, otherwise drawn with
  \<open>chance = Math.random() * 100\<close> against 90 for method upi and 95 for any other.
  Reading \<open>payment.method\<close> of a payment that was not found throws a TypeError.
\<close>

definition determine_outcome :: "ambient \<Rightarrow> payment_row option \<Rightarrow> error + bool" where
  "determine_outcome a payment =
     (if env_test_mode a then Inr (env_test_payment_success a)
      else case payment of
        None \<Rightarrow> Inl (Error ''Cannot read properties of undefined'' None None)
      | Some p \<Rightarrow>
          Inr (if p_method p = Some ''upi'' then a_random a * 100 \<le> 90
               else a_random a * 100 \<le> 95))"

definition payment_webhook_job :: "string \<Rightarrow> string \<Rightarrow> payment_row \<Rightarrow> webhook_job" where
  "payment_webhook_job status paymentId p =
     \<lparr>wj_event = ''payment.'' @ status, wj_paymentId = Some paymentId, wj_refundId = None,
      wj_merchantId = p_merchant_id p, wj_attempt = None\<rparr>"

text \<open>
  The callback of the payment-queue worker for a job \<open>{paymentId}\<close>: the error it throws,
  if any, and the system it leaves. The settlement delay is a sleep and has no effect
  on the state.
\<close>

definition paymentWorker :: "ambient \<Rightarrow> system \<Rightarrow> string \<Rightarrow> error option \<times> system" where
  "paymentWorker a s paymentId =
     (let payment = find (\<lambda>p. p_id p = paymentId) (payments s) in
      case determine_outcome a payment of
        Inl e \<Rightarrow> (Some e, s)
      | Inr success \<Rightarrow>
         (let status = (if success then ''success'' else ''failed'');
              s1 = update_payment_status a status paymentId s
          in case payment of
               None \<Rightarrow> (Some (Error ''Cannot read properties of undefined'' None None), s1)
             | Some p \<Rightarrow>
                 if a_queue_up a then
                   (None, s1\<lparr>webhook_queue := webhook_queue s1 @
                               [(payment_webhook_job status paymentId p, 0)]\<rparr>)
                 else (Some (Error ''Queue unavailable'' None None), s1)))"

text \<open>
  The enhanced payment worker: the same steps inside \<open>try\<close>, with an explicit throw for a
  missing payment; the \<open>catch\<close> writes status failed and rethrows.
\<close>

definition paymentWorkerEnhanced_try ::
  "ambient \<Rightarrow> system \<Rightarrow> string \<Rightarrow> error option \<times> system" where
  "paymentWorkerEnhanced_try a s paymentId =
     (case find (\<lambda>p. p_id p = paymentId) (payments s) of
        None \<Rightarrow> (Some (Error (''Payment not found: '' @ paymentId) None None), s)
      | Some p \<Rightarrow>
         (case determine_outcome a (Some p) of
            Inl e \<Rightarrow> (Some e, s)
          | Inr success \<Rightarrow>
             (let status = (if success then ''success'' else ''failed'');
                  s1 = update_payment_status a status paymentId s
              in if a_queue_up a then
                   (None, s1\<lparr>webhook_queue := webhook_queue s1 @
                               [(payment_webhook_job status paymentId p, 0)]\<rparr>)
                 else (Some (Error ''Queue unavailable'' None None), s1))))"

definition paymentWorkerEnhanced ::
  "ambient \<Rightarrow> system \<Rightarrow> string \<Rightarrow> error option \<times> system" where
  "paymentWorkerEnhanced a s paymentId =
     (case paymentWorkerEnhanced_try a s paymentId of
        (None, s') \<Rightarrow> (None, s')
      | (Some err, s') \<Rightarrow> (Some err, update_payment_status a ''failed'' paymentId s'))"

text \<open>The refund-queue worker for a job \<open>{refundId}\<close>: the UPDATE has no condition on the
  current status.\<close>

definition refundWorker :: "ambient \<Rightarrow> system \<Rightarrow> string \<Rightarrow> error option \<times> system" where
  "refundWorker a s refundId =
     (let s1 = s\<lparr>refunds := map (\<lambda>r. if r_id r = refundId
                                        then r\<lparr>r_status := ''processed'',
                                               r_processed_at := Some (a_now a)\<rparr>
                                        else r) (refunds s)\<rparr>
      in case find (\<lambda>r. r_id r = refundId) (refunds s1) of
           None \<Rightarrow> (Some (Error ''Cannot read properties of undefined'' None None), s1)
         | Some refund \<Rightarrow>
             if a_queue_up a then
               (None, s1\<lparr>webhook_queue := webhook_queue s1 @
                           [(\<lparr>wj_event = ''refund.processed'', wj_paymentId = None,
                              wj_refundId = Some refundId,
                              wj_merchantId = r_merchant_id refund, wj_attempt = None\<rparr>, 0)]\<rparr>)
             else (Some (Error ''Queue unavailable'' None None), s1))"

section \<open>Webhook delivery worker\<close>

text \<open>What \<open>axios.post\<close> does: it resolves on a 2xx answer and throws otherwise, with the
  response status when there was a response.\<close>

datatype post_result = Delivered | Failed "int option"

text \<open>\<open>delays[attempt] || delays[delays.length - 1]\<close>: an index outside the array reads
  \<open>undefined\<close>, and the entry 0 is falsy as well, so both give the last entry.\<close>

definition retry_delays :: "ambient \<Rightarrow> int list" where
  "retry_delays a =
     (if env_webhook_retry_intervals_test a then [0, 5, 10, 15, 20]
      else [0, 60, 300, 1800, 7200])"

definition delay_seconds :: "int list \<Rightarrow> int \<Rightarrow> int" where
  "delay_seconds delays attempt =
     (if 0 \<le> attempt \<and> nat attempt < length delays \<and> delays ! nat attempt \<noteq> 0
      then delays ! nat attempt else last delays)"

text \<open>webhook_logs: event VARCHAR(50) NOT NULL; id and created_at take their defaults.
  A refused INSERT is caught and only logged to the console.\<close>

definition insert_webhook_log :: "webhook_log_row \<Rightarrow> system \<Rightarrow> system" where
  "insert_webhook_log row s =
     (if length (wl_event row) \<le> 50 then s\<lparr>webhook_logs := webhook_logs s @ [row]\<rparr> else s)"

definition job_attempt :: "webhook_job \<Rightarrow> int" where
  "job_attempt job = (case wj_attempt job of None \<Rightarrow> 1 | Some n \<Rightarrow> n)"

text \<open>
  The callback of the webhook-queue worker. \<open>hmac\<close> stands for HMAC-SHA256 in hex of the
  serialised payload under the merchant's secret, \<open>post\<close> for the merchant's endpoint.
  A job without a merchant row or with a falsy webhook_url returns at once; a NULL
  secret makes \<open>createHmac\<close> throw before anything is sent.
\<close>

definition webhookWorker ::
  "ambient \<Rightarrow> (string \<Rightarrow> webhook_payload \<Rightarrow> string) \<Rightarrow> (webhook_post \<Rightarrow> post_result) \<Rightarrow>
   system \<Rightarrow> webhook_job \<Rightarrow> error option \<times> system" where
  "webhookWorker a hmac post s job =
     (let attempt = job_attempt job;
          merchantId = wj_merchantId job;
          event = wj_event job;
          merchant = (case merchantId of None \<Rightarrow> None
                      | Some mid \<Rightarrow> find (\<lambda>m. m_id m = mid) (merchants s))
      in case merchant of
           None \<Rightarrow> (None, s)
         | Some m \<Rightarrow>
            if \<not> truthy (m_webhook_url m) then (None, s)
            else
              (let payment = (case wj_paymentId job of None \<Rightarrow> None
                              | Some pid \<Rightarrow> find (\<lambda>p. p_id p = pid) (payments s));
                   payload = \<lparr>pl_event = event, pl_timestamp = a_now a div 1000,
                              pl_payment = payment\<rparr>
               in case m_webhook_secret m of
                    None \<Rightarrow> (Some (Error ''The key argument must be of type string'' None None), s)
                  | Some secret \<Rightarrow>
                     (let request = \<lparr>wp_url = (case m_webhook_url m of Some u \<Rightarrow> u | None \<Rightarrow> []),
                                     wp_payload = payload, wp_signature = hmac secret payload\<rparr>;
                          s1 = s\<lparr>http_sent := http_sent s @ [request]\<rparr>
                      in case post request of
                           Delivered \<Rightarrow>
                             (None, insert_webhook_log
                                \<lparr>wl_id = a_uuid a, wl_merchant_id = merchantId, wl_event = event,
                                  wl_payload = payload, wl_status = ''success'',
                                  wl_attempts = attempt, wl_last_attempt_at = Some (a_now a),
                                  wl_next_retry_at = None, wl_response_code = None,
                                  wl_created_at = a_now a\<rparr> s1)
                         | Failed response_status \<Rightarrow>
                             if attempt < 5 then
                               (let delaySeconds = delay_seconds (retry_delays a) attempt;
                                    nextRetryAt = a_now a + delaySeconds * 1000;
                                    s2 = insert_webhook_log
                                      \<lparr>wl_id = a_uuid a, wl_merchant_id = merchantId,
                                        wl_event = event, wl_payload = payload,
                                        wl_status = ''pending'', wl_attempts = attempt + 1,
                                        wl_last_attempt_at = Some (a_now a),
                                        wl_next_retry_at = Some nextRetryAt,
                                        wl_response_code = None, wl_created_at = a_now a\<rparr> s1
                                in if a_queue_up a then
                                     (None, s2\<lparr>webhook_queue := webhook_queue s2 @
                                        [(job\<lparr>wj_attempt := Some (attempt + 1)\<rparr>,
                                          delaySeconds * 1000)]\<rparr>)
                                   else (None, s2))
                             else
                               (None, insert_webhook_log
                                  \<lparr>wl_id = a_uuid a, wl_merchant_id = merchantId,
                                    wl_event = event, wl_payload = payload,
                                    wl_status = ''failed'', wl_attempts = attempt,
                                    wl_last_attempt_at = Some (a_now a),
                                    wl_next_retry_at = None,
                                    wl_response_code =
                                      (case response_status of None \<Rightarrow> None
                                       | Some c \<Rightarrow> if c = 0 then None else Some c),
                                    wl_created_at = a_now a\<rparr> s1))))"

section \<open>Manual webhook retry\<close>

text \<open>
  \<open>POST /api/v1/webhooks/:webhook_id/retry\<close>. The row is selected by id and merchant; the
  UPDATE that follows resets it in place. What \<open>JSON.parse(w.payload)\<close> yields depends on
  how the database driver hands over a JSONB column, which is outside the repository:
  \<open>json_parse\<close> gives the parsed payload, or \<open>None\<close> when the call throws.
\<close>

definition post_webhook_retry ::
  "ambient \<Rightarrow> (webhook_payload \<Rightarrow> webhook_payload option) \<Rightarrow> system \<Rightarrow> string \<Rightarrow> string \<Rightarrow>
   http_response \<times> system" where
  "post_webhook_retry a json_parse s merchantId webhook_id =
     (case find (\<lambda>w. wl_id w = webhook_id \<and> wl_merchant_id w = Some merchantId)
             (webhook_logs s) of
        None \<Rightarrow> (\<lparr>res_status = 404, res_body = WebhookNotFoundJson\<rparr>, s)
      | Some w \<Rightarrow>
         (let s1 = s\<lparr>webhook_logs :=
                      map (\<lambda>v. if wl_id v = webhook_id
                                then v\<lparr>wl_status := ''pending'', wl_attempts := 0,
                                       wl_next_retry_at := Some (a_now a),
                                       wl_response_code := None\<rparr>
                                else v) (webhook_logs s)\<rparr>
          in case json_parse (wl_payload w) of
               None \<Rightarrow> (\<lparr>res_status = 500, res_body = ErrorMessageJson\<rparr>, s1)
             | Some payload \<Rightarrow>
                (let paymentId = (case pl_payment payload of None \<Rightarrow> None
                                  | Some p \<Rightarrow> if p_id p = [] then None else Some (p_id p))
                 in if a_queue_up a then
                      (\<lparr>res_status = 200,
                        res_body = RetryScheduledJson webhook_id ''pending''
                                     ''Webhook retry scheduled''\<rparr>,
                       s1\<lparr>webhook_queue := webhook_queue s1 @
                            [(\<lparr>wj_event = wl_event w, wj_paymentId = paymentId,
                               wj_refundId = None, wj_merchantId = wl_merchant_id w,
                               wj_attempt = Some 1\<rparr>, 0)]\<rparr>)
                    else (\<lparr>res_status = 500, res_body = ErrorMessageJson\<rparr>, s1))))"

section \<open>Runs and the notions the properties are stated with\<close>

text \<open>
  \<open>processRefund\<close> and the refund route are \<open>async\<close> functions: every database query and
  the queue \<open>add\<close> is awaited on its own, with no transaction and no lock around them,
  so requests in flight take turns at those points. A request in flight is a task: the
  point it waits at together with the local values it holds. One step runs the awaited
  operation on the system as it is at that moment and the synchronous code up to the
  next \<open>await\<close>.
\<close>

record refund_request =
  rq_ambient :: ambient
  rq_paymentId :: string
  rq_amount :: int
  rq_reason :: string
  rq_idempotencyKey :: "string option"

datatype refund_task =
    AwaitKeyLookup
  | AwaitPayment
  | AwaitTotal payment_row
  | AwaitInsert payment_row
  | AwaitEnqueue refund_view
  | Settled "error + refund_view"

text \<open>Without a truthy key the lookup is skipped and the first query is the payment's.\<close>

definition processRefund_start :: "refund_request \<Rightarrow> refund_task" where
  "processRefund_start rq = (if truthy (rq_idempotencyKey rq) then AwaitKeyLookup else AwaitPayment)"

fun processRefund_step ::
  "refund_request \<Rightarrow> refund_task \<times> system \<Rightarrow> refund_task \<times> system" where
  "processRefund_step rq (AwaitKeyLookup, s) =
     (case idempotent_hit s (rq_idempotencyKey rq) of
        Some existingRefund \<Rightarrow> (Settled (Inr existingRefund), s)
      | None \<Rightarrow> (AwaitPayment, s))"
| "processRefund_step rq (AwaitPayment, s) =
     (case getPaymentById s (rq_paymentId rq) of
        None \<Rightarrow> (Settled (Inl (createError ''PAYMENT_NOT_FOUND'' ''Payment not found'' 404)), s)
      | Some payment \<Rightarrow>
          if p_status payment \<noteq> ''success'' then
            (Settled (Inl (createError ''BAD_REQUEST_ERROR''
                             ''Payment not in refundable state'' 400)), s)
          else (AwaitTotal payment, s))"
| "processRefund_step rq (AwaitTotal payment, s) =
     (if rq_amount rq + getTotalRefundedAmount s (rq_paymentId rq) > p_amount payment then
        (Settled (Inl (createError ''REFUND_AMOUNT_EXCEEDS_LIMIT''
                         ''Refund amount exceeds available amount'' 400)), s)
      else if rq_amount rq \<le> 0 then
        (Settled (Inl (createError ''INVALID_REFUND_AMOUNT''
                         ''Refund amount must be greater than 0'' 400)), s)
      else (AwaitInsert payment, s))"
| "processRefund_step rq (AwaitInsert payment, s) =
     (case createRefund (rq_ambient rq) s (generateRefundId (rq_ambient rq)) (rq_paymentId rq)
             (p_merchant_id payment) (rq_amount rq) (rq_reason rq) ''pending''
             (rq_idempotencyKey rq) of
        Inl e \<Rightarrow> (Settled (Inl e), s)
      | Inr (refund, s') \<Rightarrow> (AwaitEnqueue refund, s'))"
| "processRefund_step rq (AwaitEnqueue refund, s) =
     (if a_queue_up (rq_ambient rq) then
        (Settled (Inr refund), s\<lparr>refund_queue := refund_queue s @ [rv_id refund]\<rparr>)
      else (Settled (Inl (Error ''Queue unavailable'' None None)), s))"
| "processRefund_step rq (Settled result, s) = (Settled result, s)"

text \<open>The same for the refund route of the server file, whose awaited operations are the
  payment query, the SUM query, the INSERT and the queue \<open>add\<close>.\<close>

record route_request =
  rr_ambient :: ambient
  rr_merchantId :: string
  rr_payment_id :: string
  rr_amount :: "int option"
  rr_reason :: "string option"

datatype route_task =
    RouteAwaitPayment
  | RouteAwaitTotal payment_row
  | RouteAwaitInsert payment_row
  | RouteAwaitEnqueue string
  | RouteAnswered http_response

fun post_refunds_step ::
  "route_request \<Rightarrow> route_task \<times> system \<Rightarrow> route_task \<times> system" where
  "post_refunds_step rr (RouteAwaitPayment, s) =
     (case find (\<lambda>p. p_id p = rr_payment_id rr) (payments s) of
        None \<Rightarrow>
          (RouteAnswered \<lparr>res_status = 400, res_body = ErrorJson ''BAD_REQUEST_ERROR''
              ''Only successful payments can be refunded''\<rparr>, s)
      | Some payment \<Rightarrow>
          if p_status payment \<noteq> ''success'' then
            (RouteAnswered \<lparr>res_status = 400, res_body = ErrorJson ''BAD_REQUEST_ERROR''
                ''Only successful payments can be refunded''\<rparr>, s)
          else (RouteAwaitTotal payment, s))"
| "post_refunds_step rr (RouteAwaitTotal payment, s) =
     (if (case rr_amount rr of
            None \<Rightarrow> False
          | Some n \<Rightarrow> n + getTotalRefundedAmount s (rr_payment_id rr) > p_amount payment) then
        (RouteAnswered \<lparr>res_status = 400, res_body = ErrorJson ''BAD_REQUEST_ERROR''
            ''Refund amount exceeds available balance''\<rparr>, s)
      else (RouteAwaitInsert payment, s))"
| "post_refunds_step rr (RouteAwaitInsert payment, s) =
     (let refundId = short_id ''rfnd_'' (rr_ambient rr) in
      if \<not> refund_insert_ok s refundId (rr_amount rr) None then
        (RouteAnswered \<lparr>res_status = 500, res_body = RefundFailedJson\<rparr>, s)
      else
        (RouteAwaitEnqueue refundId,
         s\<lparr>refunds := refunds s @
              [\<lparr>r_id = refundId, r_payment_id = rr_payment_id rr,
                r_merchant_id = p_merchant_id payment,
                r_amount = (case rr_amount rr of Some n \<Rightarrow> n | None \<Rightarrow> 0),
                r_reason = rr_reason rr, r_status = ''pending'',
                r_idempotency_key = None, r_created_at = a_now (rr_ambient rr),
                r_processed_at = None\<rparr>]\<rparr>))"
| "post_refunds_step rr (RouteAwaitEnqueue refundId, s) =
     (if a_queue_up (rr_ambient rr) then
        (RouteAnswered \<lparr>res_status = 201,
           res_body = RefundCreatedJson refundId (rr_payment_id rr) (rr_amount rr) ''pending''\<rparr>,
         s\<lparr>refund_queue := refund_queue s @ [refundId]\<rparr>)
      else (RouteAnswered \<lparr>res_status = 500, res_body = RefundFailedJson\<rparr>, s))"
| "post_refunds_step rr (RouteAnswered response, s) = (RouteAnswered response, s)"

text \<open>
  Requests in flight: \<open>schedule\<close> names, turn by turn, the request whose awaited operation
  completes next; \<open>step\<close> is the step function of the service or of the route.
\<close>

fun run_interleaved ::
  "('r \<Rightarrow> 't \<times> system \<Rightarrow> 't \<times> system) \<Rightarrow> 'r list \<Rightarrow> nat list \<Rightarrow> 't list \<times> system \<Rightarrow>
   't list \<times> system" where
  "run_interleaved step reqs [] c = c"
| "run_interleaved step reqs (i # schedule) (tasks, s) =
     (if i < length reqs \<and> i < length tasks then
        (case step (reqs ! i) (tasks ! i, s) of
           (t, s') \<Rightarrow> run_interleaved step reqs schedule (tasks[i := t], s'))
      else run_interleaved step reqs schedule (tasks, s))"

text \<open>The checks of \<open>processRefund\<close> a request violates, each with the error the
  source gives it, in the order the specification fixes; the state, limit and positivity
  checks are about a payment that exists.\<close>

definition failed_checks :: "system \<Rightarrow> string \<Rightarrow> int \<Rightarrow> error list" where
  "failed_checks s paymentId requestedAmount =
     (case getPaymentById s paymentId of
        None \<Rightarrow> [createError ''PAYMENT_NOT_FOUND'' ''Payment not found'' 404]
      | Some payment \<Rightarrow>
          (if p_status payment \<noteq> ''success''
           then [createError ''BAD_REQUEST_ERROR'' ''Payment not in refundable state'' 400]
           else []) @
          (if requestedAmount + getTotalRefundedAmount s paymentId > p_amount payment
           then [createError ''REFUND_AMOUNT_EXCEEDS_LIMIT''
                   ''Refund amount exceeds available amount'' 400]
           else []) @
          (if requestedAmount \<le> 0
           then [createError ''INVALID_REFUND_AMOUNT''
                   ''Refund amount must be greater than 0'' 400]
           else []))"





text \<open>
  The webhook queue run to the end: the job at the head is taken off and handed to the
  worker, which may add a job at the back; \<open>amb k\<close> gives the ambient values of the
  \<open>k\<close>-th delivery. Delays order the deliveries in time and do not change what each one
  does. The run ends because every job the worker adds carries a larger attempt number
  and none is added from attempt 5 on.
\<close>

definition job_weight :: "webhook_job \<times> int \<Rightarrow> nat" where
  "job_weight q = Suc (nat (5 - job_attempt (fst q)))"

function run_webhook_queue ::
  "(nat \<Rightarrow> ambient) \<Rightarrow> (string \<Rightarrow> webhook_payload \<Rightarrow> string) \<Rightarrow> (webhook_post \<Rightarrow> post_result) \<Rightarrow>
   nat \<Rightarrow> system \<Rightarrow> system" where
  "run_webhook_queue amb hmac post k s =
     (case webhook_queue s of
        [] \<Rightarrow> s
      | q # rest \<Rightarrow>
          run_webhook_queue amb hmac post (Suc k)
            (snd (webhookWorker (amb k) hmac post (s\<lparr>webhook_queue := rest\<rparr>) (fst q))))"
  by pat_completeness auto
termination
proof (relation "measure (\<lambda>(amb, hmac, post, k, s). sum_list (map job_weight (webhook_queue s)))")
  show "wf (measure (\<lambda>(amb, hmac, post, k, s). sum_list (map job_weight (webhook_queue s))))"
    by simp
next
  fix amb :: "nat \<Rightarrow> ambient" and hmac post k and s :: system and q rest
  assume q: "webhook_queue s = q # rest"
  have "sum_list (map job_weight
          (webhook_queue (snd (webhookWorker (amb k) hmac post (s\<lparr>webhook_queue := rest\<rparr>) (fst q)))))
        < sum_list (map job_weight (q # rest))"
    by (auto simp: webhookWorker_def Let_def insert_webhook_log_def job_weight_def job_attempt_def
             split: option.splits post_result.splits)
  then show "((amb, hmac, post, Suc k,
               snd (webhookWorker (amb k) hmac post (s\<lparr>webhook_queue := rest\<rparr>) (fst q))),
              (amb, hmac, post, k, s)) \<in>
             measure (\<lambda>(amb, hmac, post, k, s). sum_list (map job_weight (webhook_queue s)))"
    using q by simp
qed

declare run_webhook_queue.simps [simp del]

text \<open>The retry schedule as the specification gives it, in seconds.\<close>

definition production_delays :: "int list" where
  "production_delays = [0, 60, 300, 1800, 7200]"

text \<open>What the UPDATE of the manual retry sets on a row: status pending, attempts 0,
  next_retry_at \<open>NOW()\<close>, response_code NULL.\<close>

definition reset_for_retry :: "ambient \<Rightarrow> webhook_log_row \<Rightarrow> webhook_log_row" where
  "reset_for_retry a v = v\<lparr>wl_status := ''pending'', wl_attempts := 0,
                            wl_next_retry_at := Some (a_now a), wl_response_code := None\<rparr>"

section \<open>Example data\<close>

definition ex_amb :: ambient where
  "ex_amb = \<lparr>env_test_mode = False, env_test_payment_success = True,
             env_webhook_retry_intervals_test = False, a_now = 1700000000000,
             a_uuid = ''3f2b8c1e-9d4a-4f6b-8a1c-5e7d9b2c4a6f'', a_random = 1/2,
             a_queue_up = True\<rparr>"

definition ex_payment :: payment_row where
  "ex_payment = \<lparr>p_id = ''pay_1'', p_merchant_id = Some ''m_A'', p_order_id = ''order_1'',
                 p_amount = 1000, p_status = ''success'', p_captured = False,
                 p_method = Some ''upi'', p_created_at = 0, p_updated_at = 0\<rparr>"

definition ex_refund :: refund_row where
  "ex_refund = \<lparr>r_id = ''rfnd_0'', r_payment_id = ''pay_1'', r_merchant_id = Some ''m_A'',
                r_amount = 600, r_reason = Some ''damaged'', r_status = ''pending'',
                r_idempotency_key = None, r_created_at = 0, r_processed_at = None\<rparr>"

definition ex_system :: system where
  "ex_system = \<lparr>merchants = [], payments = [ex_payment], refunds = [ex_refund],
                idempotency_keys = [], webhook_logs = [], payment_queue = [],
                refund_queue = [], webhook_queue = [], http_sent = []\<rparr>"

definition ex_refunded :: system where
  "ex_refunded = ex_system\<lparr>refunds := [ex_refund, ex_refund\<lparr>r_id := ''rfnd_1'', r_amount := 400,
                                                        r_status := ''processed''\<rparr>]\<rparr>"

definition ex_keyed_refund :: refund_row where
  "ex_keyed_refund = ex_refund\<lparr>r_idempotency_key := Some ''key-1''\<rparr>"

definition ex_keyed :: system where
  "ex_keyed = ex_system\<lparr>refunds := [ex_keyed_refund]\<rparr>"

definition ex_paid :: system where
  "ex_paid = ex_system\<lparr>refunds := []\<rparr>"

definition ex_amb2 :: ambient where
  "ex_amb2 = ex_amb\<lparr>a_now := 1700000005000, a_uuid := ''7c9e6679-7425-40de-944b-e07fc1f90ae7''\<rparr>"



definition ex_shop :: system where
  "ex_shop = \<lparr>merchants = [\<lparr>m_id = ''m_A'', m_api_key = ''key_A'',
                              m_webhook_url = Some ''https://a.example/hook'',
                              m_webhook_secret = Some ''whsec_A''\<rparr>,
                            \<lparr>m_id = ''m_B'', m_api_key = ''key_B'',
                              m_webhook_url = Some ''https://b.example/hook'',
                              m_webhook_secret = Some ''whsec_B''\<rparr>],
              payments = [], refunds = [], idempotency_keys = [], webhook_logs = [],
              payment_queue = [], refund_queue = [], webhook_queue = [], http_sent = []\<rparr>"

definition ex_first :: "http_response \<times> system" where
  "ex_first = post_payments ex_amb ex_shop ''m_A'' (Some ''ORDER_1'') (Some 1000) (Some ''upi'')
                (Some ''idem-1'')"

definition ex_payment_B :: payment_row where
  "ex_payment_B = \<lparr>p_id = ''pay_B'', p_merchant_id = Some ''m_B'', p_order_id = ''order_B'',
                   p_amount = 1000, p_status = ''success'', p_captured = False,
                   p_method = Some ''card'', p_created_at = 0, p_updated_at = 0\<rparr>"

definition ex_refund_B :: refund_row where
  "ex_refund_B = \<lparr>r_id = ''rfnd_B'', r_payment_id = ''pay_B'', r_merchant_id = Some ''m_B'',
                  r_amount = 100, r_reason = Some ''late'', r_status = ''processed'',
                  r_idempotency_key = Some ''key-B'', r_created_at = 0,
                  r_processed_at = Some 5\<rparr>"

definition ex_two_tenants :: system where
  "ex_two_tenants = ex_shop\<lparr>payments := [ex_payment_B], refunds := [ex_refund_B]\<rparr>"

definition ex_amb_unlucky :: ambient where
  "ex_amb_unlucky = ex_amb\<lparr>a_now := 1700000060000, a_random := 99 / 100\<rparr>"

definition ex_refund_done :: refund_row where
  "ex_refund_done = ex_refund\<lparr>r_status := ''processed'', r_processed_at := Some 1700000001000\<rparr>"

definition ex_settled :: system where
  "ex_settled = ex_system\<lparr>refunds := [ex_refund_done]\<rparr>"

definition ex_amb_queue_down :: ambient where
  "ex_amb_queue_down = ex_amb\<lparr>env_test_mode := True, a_now := 1700000030000, a_queue_up := False\<rparr>"

definition ex_pending :: system where
  "ex_pending = ex_system\<lparr>payments := [ex_payment\<lparr>p_status := ''pending''\<rparr>], refunds := []\<rparr>"

definition ex_job :: webhook_job where
  "ex_job = \<lparr>wj_event = ''payment.success'', wj_paymentId = Some ''pay_1'', wj_refundId = None,
             wj_merchantId = Some ''m_A'', wj_attempt = None\<rparr>"

definition ex_delivering :: system where
  "ex_delivering = ex_shop\<lparr>payments := [ex_payment], webhook_queue := [(ex_job, 0)]\<rparr>"

definition ex_clock :: "nat \<Rightarrow> ambient" where
  "ex_clock i = ex_amb\<lparr>a_now := 1700000000000 + 10000000 * int i\<rparr>"

definition ex_hmac :: "string \<Rightarrow> webhook_payload \<Rightarrow> string" where
  "ex_hmac secret payload = ''5d41402abc4b2a76b9719d911017c592''"

definition ex_endpoint_down :: "webhook_post \<Rightarrow> post_result" where
  "ex_endpoint_down request = Failed (Some 500)"

definition ex_log :: webhook_log_row where
  "ex_log = \<lparr>wl_id = ''wh_1'', wl_merchant_id = Some ''m_A'', wl_event = ''payment.success'',
             wl_payload = \<lparr>pl_event = ''payment.success'', pl_timestamp = 1700037200,
                            pl_payment = Some ex_payment\<rparr>,
             wl_status = ''failed'', wl_attempts = 5, wl_last_attempt_at = Some 1700037200000,
             wl_next_retry_at = None, wl_response_code = Some 500,
             wl_created_at = 1700037200000\<rparr>"

definition ex_logged :: system where
  "ex_logged = ex_shop\<lparr>payments := [ex_payment], webhook_logs := [ex_log]\<rparr>"

definition ex_request_1 :: refund_request where
  "ex_request_1 = \<lparr>rq_ambient = ex_amb, rq_paymentId = ''pay_1'', rq_amount = 600,
                   rq_reason = ''damaged'', rq_idempotencyKey = None\<rparr>"

definition ex_request_2 :: refund_request where
  "ex_request_2 = \<lparr>rq_ambient = ex_amb2, rq_paymentId = ''pay_1'', rq_amount = 600,
                   rq_reason = ''damaged'', rq_idempotencyKey = None\<rparr>"

definition ex_route_request_1 :: route_request where
  "ex_route_request_1 = \<lparr>rr_ambient = ex_amb, rr_merchantId = ''m_A'', rr_payment_id = ''pay_1'',
                         rr_amount = Some 600, rr_reason = Some ''damaged''\<rparr>"

definition ex_route_request_2 :: route_request where
  "ex_route_request_2 = \<lparr>rr_ambient = ex_amb2, rr_merchantId = ''m_A'', rr_payment_id = ''pay_1'',
                         rr_amount = Some 600, rr_reason = Some ''damaged''\<rparr>"

definition ex_both_in_flight :: "refund_task list \<times> system" where
  "ex_both_in_flight =
     run_interleaved processRefund_step [ex_request_1, ex_request_2] [0, 1, 0, 1, 0, 1, 0, 1]
       (map processRefund_start [ex_request_1, ex_request_2], ex_paid)"

definition ex_route_both_in_flight :: "route_task list \<times> system" where
  "ex_route_both_in_flight =
     run_interleaved post_refunds_step [ex_route_request_1, ex_route_request_2]
       [0, 1, 0, 1, 0, 1, 0, 1] ([RouteAwaitPayment, RouteAwaitPayment], ex_paid)"

section \<open>Properties\<close>

lemmas ex_defs = ex_amb_def ex_payment_def ex_refund_def ex_system_def
lemmas model_defs = processRefund_def post_refunds_def getPaymentById_def getTotalRefundedAmount_def
  idempotent_hit_def findRefundByIdempotencyKey_def createRefund_def refund_insert_ok_def
  generateRefundId_def short_id_def refund_columns_def createError_def int4_def truthy_def

lemma processRefund_steps_alone:
  "(processRefund_step rq ^^ 5) (processRefund_start rq, s) =
     (Settled (fst (processRefund (rq_ambient rq) s (rq_paymentId rq) (rq_amount rq) (rq_reason rq)
                      (rq_idempotencyKey rq))),
      snd (processRefund (rq_ambient rq) s (rq_paymentId rq) (rq_amount rq) (rq_reason rq)
             (rq_idempotencyKey rq)))"
  by (auto simp: numeral_eq_Suc processRefund_start_def processRefund_def createRefund_def
        idempotent_hit_def truthy_def Let_def split: option.splits sum.splits)

lemma post_refunds_steps_alone:
  "(post_refunds_step rr ^^ 4) (RouteAwaitPayment, s) =
     (RouteAnswered (fst (post_refunds (rr_ambient rr) s (rr_merchantId rr) (rr_payment_id rr)
                            (rr_amount rr) (rr_reason rr))),
      snd (post_refunds (rr_ambient rr) s (rr_merchantId rr) (rr_payment_id rr) (rr_amount rr)
             (rr_reason rr)))"
  by (auto simp: numeral_eq_Suc post_refunds_def Let_def split: option.splits)

lemmas in_flight_defs = ex_both_in_flight_def ex_route_both_in_flight_def ex_request_1_def
  ex_request_2_def ex_route_request_1_def ex_route_request_2_def ex_paid_def ex_amb2_def
  processRefund_start_def

text \<open>
  C1 at a failing input. A successful payment of 1000 has no refunds. Two requests for
  600 are in flight at once and their awaited operations complete in turn: both fetch
  the payment, both read an outstanding total of 0, both pass the limit check
  (600 + 0 is not greater than 1000), both INSERT and both enqueue. Both are answered
  with their refund, two pending rows of 600 stand on the payment, and the outstanding
  total is 1200. The same happens through the route of the server file. Run alone, one
  request after the other, the steps give what \<open>processRefund\<close> and the route give on the
  system as a whole (the two lemmas above), and the second request is refused.
\<close>

theorem interleaved_refunds_exceed_limit:
  "getTotalRefundedAmount ex_paid ''pay_1'' = 0 \<and>
   map_option p_amount (getPaymentById ex_paid ''pay_1'') = Some 1000 \<and>
   map_option p_status (getPaymentById ex_paid ''pay_1'') = Some ''success'' \<and>
   map (\<lambda>t. case t of Settled (Inr v) \<Rightarrow> Some (rv_id v, rv_amount v, rv_status v) | _ \<Rightarrow> None)
     (fst ex_both_in_flight) =
     [Some (''rfnd_3f2b8c1e9d4a4f6b'', 600, ''pending''),
      Some (''rfnd_7c9e6679742540de'', 600, ''pending'')] \<and>
   map (\<lambda>r. (r_id r, r_payment_id r, r_amount r, r_status r)) (refunds (snd ex_both_in_flight)) =
     [(''rfnd_3f2b8c1e9d4a4f6b'', ''pay_1'', 600, ''pending''),
      (''rfnd_7c9e6679742540de'', ''pay_1'', 600, ''pending'')] \<and>
   refund_queue (snd ex_both_in_flight) = [''rfnd_3f2b8c1e9d4a4f6b'', ''rfnd_7c9e6679742540de''] \<and>
   getTotalRefundedAmount (snd ex_both_in_flight) ''pay_1'' = 1200 \<and>
   map (\<lambda>t. case t of RouteAnswered r \<Rightarrow> Some (res_status r) | _ \<Rightarrow> None)
     (fst ex_route_both_in_flight) = [Some 201, Some 201] \<and>
   getTotalRefundedAmount (snd ex_route_both_in_flight) ''pay_1'' = 1200 \<and>
   fst (processRefund ex_amb2
          (snd (processRefund ex_amb ex_paid ''pay_1'' 600 ''damaged'' None))
          ''pay_1'' 600 ''damaged'' None) =
     Inl (createError ''REFUND_AMOUNT_EXCEEDS_LIMIT'' ''Refund amount exceeds available amount'' 400)"
  by (simp add: in_flight_defs ex_defs model_defs Let_def)

text \<open>
  C3, as stated, fails: a successful payment of 1000 carries refunds of 600 (pending) and
  400 (processed), so it is fully refunded. A request for amount 0 passes the limit check
  (0 + 1000 is not greater than 1000) and is answered with the positivity error, not the
  limit error.
\<close>

theorem zero_refund_on_refunded_payment_counterexample:
  "getPaymentById ex_refunded ''pay_1'' = Some ex_payment \<and> p_status ex_payment = ''success'' \<and>
   getTotalRefundedAmount ex_refunded ''pay_1'' = p_amount ex_payment \<and>
   fst (processRefund ex_amb ex_refunded ''pay_1'' 0 ''nothing'' None) =
     Inl (createError ''INVALID_REFUND_AMOUNT'' ''Refund amount must be greater than 0'' 400) \<and>
   fst (processRefund ex_amb ex_refunded ''pay_1'' 0 ''nothing'' None) \<noteq>
     Inl (createError ''REFUND_AMOUNT_EXCEEDS_LIMIT'' ''Refund amount exceeds available amount'' 400)"
  by (simp add: ex_refunded_def ex_defs model_defs)

text \<open>
  C3, amended. \<open>failed_checks\<close> lists, in the order idempotency is followed by
  (payment existence, payment state, composite limit, amount positivity), every check
  the request violates. A stored refund for the key is returned before any check; on a
  miss the error thrown is the first violated check and the system is unchanged. For a
  successful payment that is exactly fully refunded, an amount of 0 or less passes the
  limit check and gets the positivity error.
\<close>

theorem processRefund_check_order:
  "(idempotent_hit s key = Some stored \<longrightarrow>
      processRefund a s paymentId amount reason key = (Inr stored, s)) \<and>
   (idempotent_hit s key = None \<and> failed_checks s paymentId amount \<noteq> [] \<longrightarrow>
      processRefund a s paymentId amount reason key =
        (Inl (hd (failed_checks s paymentId amount)), s)) \<and>
   (idempotent_hit s key = None \<and> getPaymentById s paymentId = Some p \<and>
    p_status p = ''success'' \<and> getTotalRefundedAmount s paymentId = p_amount p \<and> amount \<le> 0 \<longrightarrow>
      processRefund a s paymentId amount reason key =
        (Inl (createError ''INVALID_REFUND_AMOUNT'' ''Refund amount must be greater than 0'' 400),
         s))"
  by (auto simp: processRefund_def failed_checks_def split: option.splits)

text \<open>
  The amended C3 at the fully refunded payment (miss, positivity error first) and at a
  ledger holding a refund under the key (the stored refund is returned although the
  payment does not exist and the amount is negative).
\<close>

theorem processRefund_check_order_witness:
  "idempotent_hit ex_refunded None = None \<and> failed_checks ex_refunded ''pay_1'' 0 \<noteq> [] \<and>
   getPaymentById ex_refunded ''pay_1'' = Some ex_payment \<and> p_status ex_payment = ''success'' \<and>
   getTotalRefundedAmount ex_refunded ''pay_1'' = p_amount ex_payment \<and> (0::int) \<le> 0 \<and>
   processRefund ex_amb ex_refunded ''pay_1'' 0 ''nothing'' None =
     (Inl (createError ''INVALID_REFUND_AMOUNT'' ''Refund amount must be greater than 0'' 400),
      ex_refunded) \<and>
   hd (failed_checks ex_refunded ''pay_1'' 0) =
     createError ''INVALID_REFUND_AMOUNT'' ''Refund amount must be greater than 0'' 400 \<and>
   idempotent_hit ex_keyed (Some ''key-1'') = Some (refund_columns ex_keyed_refund) \<and>
   processRefund ex_amb ex_keyed ''no_such_payment'' (- 5) ''nothing'' (Some ''key-1'') =
     (Inr (refund_columns ex_keyed_refund), ex_keyed)"
proof -
  have h1: "idempotent_hit ex_refunded None = None \<and>
      getPaymentById ex_refunded ''pay_1'' = Some ex_payment \<and> p_status ex_payment = ''success'' \<and>
      getTotalRefundedAmount ex_refunded ''pay_1'' = p_amount ex_payment \<and> (0::int) \<le> 0"
    by (simp add: ex_refunded_def ex_defs model_defs)
  have h2: "failed_checks ex_refunded ''pay_1'' 0 \<noteq> [] \<and>
      hd (failed_checks ex_refunded ''pay_1'' 0) =
        createError ''INVALID_REFUND_AMOUNT'' ''Refund amount must be greater than 0'' 400"
    by (simp add: failed_checks_def ex_refunded_def ex_defs model_defs)
  have h3: "idempotent_hit ex_keyed (Some ''key-1'') = Some (refund_columns ex_keyed_refund)"
    by (simp add: ex_keyed_def ex_keyed_refund_def ex_defs model_defs)
  from processRefund_check_order
         [where s = ex_refunded and key = None and paymentId = "''pay_1''" and amount = 0
            and p = ex_payment and a = ex_amb and reason = "''nothing''"]
       h1 h2
  have c1: "processRefund ex_amb ex_refunded ''pay_1'' 0 ''nothing'' None =
     (Inl (createError ''INVALID_REFUND_AMOUNT'' ''Refund amount must be greater than 0'' 400),
      ex_refunded)"
    by simp
  from processRefund_check_order
         [where s = ex_keyed and key = "Some ''key-1''" and paymentId = "''no_such_payment''"
            and amount = "- 5" and stored = "refund_columns ex_keyed_refund" and a = ex_amb
            and reason = "''nothing''"]
       h3
  have c2: "processRefund ex_amb ex_keyed ''no_such_payment'' (- 5) ''nothing'' (Some ''key-1'') =
     (Inr (refund_columns ex_keyed_refund), ex_keyed)"
    by simp
  from h1 h2 h3 c1 c2 show ?thesis by simp
qed
















lemmas handler_defs = post_payments_def cached_response_def payment_insert_ok_def
  idempotency_insert_ok_def short_id_def truthy_def int4_def

lemma find_append:
  "find P (xs @ ys) = (case find P xs of None \<Rightarrow> find P ys | Some x \<Rightarrow> Some x)"
  by (induction xs) auto

lemma cached_after_created:
  assumes t: "truthy key"
    and p: "post_payments a s merchantId order_id amount method key = (r1, s1)"
    and c: "res_status r1 = 201"
  shows "cached_response s1 key merchantId = Some (res_body r1)"
proof -
  obtain k where k: "key = Some k" "k \<noteq> []" using t by (auto simp: truthy_def split: option.splits)
  have miss: "cached_response s key merchantId = None"
    using p c by (auto simp: post_payments_def split: option.splits)
  then have nofind: "find (\<lambda>r. ik_key r = k \<and> ik_merchant_id r = merchantId) (idempotency_keys s) = None"
    using k by (simp add: cached_response_def)
  from p c miss k show ?thesis
    by (auto simp: post_payments_def Let_def truthy_def cached_response_def nofind find_append
          split: if_splits)
qed

lemma ex_first_value:
  "ex_first =
     (\<lparr>res_status = 201, res_body = PaymentJson ''pay_3f2b8c1e9d4a4f6'' (Some ''ORDER_1'') (Some 1000) ''pending''\<rparr>,
      ex_shop\<lparr>payments := [\<lparr>p_id = ''pay_3f2b8c1e9d4a4f6'', p_merchant_id = Some ''m_A'',
                  p_order_id = ''ORDER_1'', p_amount = 1000, p_status = ''pending'',
                  p_captured = False, p_method = Some ''upi'', p_created_at = 1700000000000,
                  p_updated_at = 1700000000000\<rparr>],
         idempotency_keys := [\<lparr>ik_key = ''idem-1'', ik_merchant_id = ''m_A'',
             ik_response_body = PaymentJson ''pay_3f2b8c1e9d4a4f6'' (Some ''ORDER_1'') (Some 1000) ''pending'',
             ik_created_at = 1700000000000, ik_expires_at = 1700086400000\<rparr>],
         payment_queue := [''pay_3f2b8c1e9d4a4f6'']\<rparr>)"
  by (simp add: ex_first_def ex_shop_def ex_amb_def handler_defs Let_def)

text \<open>
  C5, as stated, fails: the first request under a key is answered 201 and recorded; the
  replay is answered with the recorded body but with status 200, not 201.
\<close>

theorem payment_replay_status_counterexample:
  "res_status (fst ex_first) = 201 \<and>
   cached_response (snd ex_first) (Some ''idem-1'') ''m_A'' = Some (res_body (fst ex_first)) \<and>
   res_status (fst (post_payments ex_amb2 (snd ex_first) ''m_A'' (Some ''ORDER_1'') (Some 1000)
                      (Some ''upi'') (Some ''idem-1''))) = 200 \<and>
   res_status (fst (post_payments ex_amb2 (snd ex_first) ''m_A'' (Some ''ORDER_1'') (Some 1000)
                      (Some ''upi'') (Some ''idem-1''))) \<noteq> res_status (fst ex_first)"
  by (simp add: ex_first_value ex_shop_def handler_defs)

text \<open>
  C5, amended. When a response is recorded for the (key, merchant) pair, the handler
  answers with the stored body and HTTP status 200, and leaves the system untouched: no
  payment row, no idempotency row, no job. In particular after a request with a truthy
  key that was answered 201, any later request of that merchant under the key gets the
  body of that first answer, with status 200.
\<close>

theorem payment_replay_returns_stored_body:
  "(cached_response s key merchantId = Some body \<longrightarrow>
      post_payments a s merchantId order_id amount pay_method key =
        (\<lparr>res_status = 200, res_body = body\<rparr>, s)) \<and>
   (truthy key \<and> post_payments a s merchantId order_id amount pay_method key = (resp, after) \<and>
    res_status resp = 201 \<longrightarrow>
      post_payments a' after merchantId order_id' amount' pay_method' key =
        (\<lparr>res_status = 200, res_body = res_body resp\<rparr>, after))"
proof (intro conjI impI)
  assume "cached_response s key merchantId = Some body"
  then show "post_payments a s merchantId order_id amount pay_method key =
        (\<lparr>res_status = 200, res_body = body\<rparr>, s)"
    by (simp add: post_payments_def)
next
  assume h: "truthy key \<and> post_payments a s merchantId order_id amount pay_method key = (resp, after) \<and>
    res_status resp = 201"
  then have "cached_response after key merchantId = Some (res_body resp)"
    using cached_after_created by blast
  then show "post_payments a' after merchantId order_id' amount' pay_method' key =
        (\<lparr>res_status = 200, res_body = res_body resp\<rparr>, after)"
    by (simp add: post_payments_def)
qed

text \<open>
  The amended C5 at the recorded first request: the replay, and a request with other
  body fields under the same key, both get the stored body with status 200.
\<close>

theorem payment_replay_returns_stored_body_witness:
  "cached_response (snd ex_first) (Some ''idem-1'') ''m_A'' =
     Some (PaymentJson ''pay_3f2b8c1e9d4a4f6'' (Some ''ORDER_1'') (Some 1000) ''pending'') \<and>
   truthy (Some ''idem-1'') \<and>
   post_payments ex_amb ex_shop ''m_A'' (Some ''ORDER_1'') (Some 1000) (Some ''upi'')
     (Some ''idem-1'') = ex_first \<and>
   res_status (fst ex_first) = 201 \<and>
   post_payments ex_amb2 (snd ex_first) ''m_A'' (Some ''ORDER_1'') (Some 1000) (Some ''upi'')
     (Some ''idem-1'') =
     (\<lparr>res_status = 200,
        res_body = PaymentJson ''pay_3f2b8c1e9d4a4f6'' (Some ''ORDER_1'') (Some 1000) ''pending''\<rparr>,
      snd ex_first) \<and>
   post_payments ex_amb2 (snd ex_first) ''m_A'' None (Some (- 1)) None (Some ''idem-1'') =
     (\<lparr>res_status = 200, res_body = res_body (fst ex_first)\<rparr>, snd ex_first)"
proof -
  have h1: "cached_response (snd ex_first) (Some ''idem-1'') ''m_A'' =
     Some (PaymentJson ''pay_3f2b8c1e9d4a4f6'' (Some ''ORDER_1'') (Some 1000) ''pending'')"
    by (simp add: ex_first_value ex_shop_def handler_defs)
  have h2: "truthy (Some ''idem-1'') \<and>
      post_payments ex_amb ex_shop ''m_A'' (Some ''ORDER_1'') (Some 1000) (Some ''upi'')
        (Some ''idem-1'') = (fst ex_first, snd ex_first) \<and> res_status (fst ex_first) = 201"
    by (simp add: ex_first_value truthy_def) (simp add: ex_first_def[symmetric] ex_first_value)
  have h3: "post_payments ex_amb ex_shop ''m_A'' (Some ''ORDER_1'') (Some 1000) (Some ''upi'')
        (Some ''idem-1'') = ex_first"
    by (simp add: ex_first_def)
  from payment_replay_returns_stored_body
         [where s = "snd ex_first" and key = "Some ''idem-1''" and merchantId = "''m_A''"
            and body = "PaymentJson ''pay_3f2b8c1e9d4a4f6'' (Some ''ORDER_1'') (Some 1000) ''pending''"
            and a = ex_amb2 and order_id = "Some ''ORDER_1''" and amount = "Some 1000"
            and pay_method = "Some ''upi''"]
       h1
  have c1: "post_payments ex_amb2 (snd ex_first) ''m_A'' (Some ''ORDER_1'') (Some 1000)
              (Some ''upi'') (Some ''idem-1'') =
     (\<lparr>res_status = 200,
        res_body = PaymentJson ''pay_3f2b8c1e9d4a4f6'' (Some ''ORDER_1'') (Some 1000) ''pending''\<rparr>,
      snd ex_first)"
    by simp
  from payment_replay_returns_stored_body
         [where s = ex_shop and key = "Some ''idem-1''" and merchantId = "''m_A''"
            and a = ex_amb and order_id = "Some ''ORDER_1''" and amount = "Some 1000"
            and pay_method = "Some ''upi''" and resp = "fst ex_first" and after = "snd ex_first"
            and a' = ex_amb2 and order_id' = None and amount' = "Some (- 1)" and pay_method' = None]
       h2
  have c2: "post_payments ex_amb2 (snd ex_first) ''m_A'' None (Some (- 1)) None (Some ''idem-1'') =
     (\<lparr>res_status = 200, res_body = res_body (fst ex_first)\<rparr>, snd ex_first)"
    by simp
  from h1 h2 h3 c1 c2 show ?thesis by simp
qed

lemma miss_idempotency_insert:
  assumes "cached_response s (Some k) merchantId = None" "k \<noteq> []"
  shows "idempotency_insert_ok (s\<lparr>payments := ps\<rparr>) k merchantId = (length k \<le> 255)"
proof -
  from assms have "find (\<lambda>r. ik_key r = k \<and> ik_merchant_id r = merchantId) (idempotency_keys s) = None"
    by (simp add: cached_response_def)
  then have "(k, merchantId) \<notin> set (map (\<lambda>r. (ik_key r, ik_merchant_id r)) (idempotency_keys s))"
    by (auto simp: find_None_iff)
  then show ?thesis by (simp add: idempotency_insert_ok_def)
qed

text \<open>
  C6, amended. On a cache miss the handler makes no check of amount or method and never
  answers with a validation error: the answer is 201 or 500. If the INSERT into payments
  is accepted by the schema (fresh id, order_id present and of at most 255 characters,
  amount a 32-bit integer, method of at most 50 characters), a payment row with status
  pending, the given amount and the given method is appended, whatever the sign of the
  amount and whether or not the method is empty; otherwise nothing changes. The answer is
  201, with the job enqueued, exactly when in addition the key (if any) fits its column
  and the queue accepts the job.
\<close>

theorem payment_created_without_validation:
  assumes "cached_response s key merchantId = None"
  shows "(res_status (fst (post_payments a s merchantId order_id amount pay_method key)) = 201 \<or>
          res_status (fst (post_payments a s merchantId order_id amount pay_method key)) = 500) \<and>
         (res_status (fst (post_payments a s merchantId order_id amount pay_method key)) = 201 \<longleftrightarrow>
            payment_insert_ok s (short_id ''pay_'' a) order_id amount pay_method \<and>
            (case key of None \<Rightarrow> True | Some k \<Rightarrow> length k \<le> 255) \<and> a_queue_up a) \<and>
         (payment_insert_ok s (short_id ''pay_'' a) order_id amount pay_method \<longrightarrow>
            (\<exists>row. payments (snd (post_payments a s merchantId order_id amount pay_method key)) =
                     payments s @ [row] \<and>
                   p_id row = short_id ''pay_'' a \<and> Some (p_amount row) = amount \<and>
                   p_method row = pay_method \<and> p_status row = ''pending'' \<and>
                   p_merchant_id row = Some merchantId)) \<and>
         (\<not> payment_insert_ok s (short_id ''pay_'' a) order_id amount pay_method \<longrightarrow>
            snd (post_payments a s merchantId order_id amount pay_method key) = s) \<and>
         payment_queue (snd (post_payments a s merchantId order_id amount pay_method key)) =
           (if res_status (fst (post_payments a s merchantId order_id amount pay_method key)) = 201
            then payment_queue s @ [short_id ''pay_'' a] else payment_queue s)"
proof (cases key)
  case None
  with assms show ?thesis
    by (auto simp: post_payments_def Let_def truthy_def payment_insert_ok_def
          split: option.splits)
next
  case (Some k)
  show ?thesis
  proof (cases "k = []")
    case True
    with Some assms show ?thesis
      by (auto simp: post_payments_def Let_def truthy_def payment_insert_ok_def
            split: option.splits)
  next
    case False
    with Some assms miss_idempotency_insert[of s k merchantId] show ?thesis
      by (auto simp: post_payments_def Let_def truthy_def payment_insert_ok_def
            split: option.splits)
  qed
qed

text \<open>
  C6, as stated, fails: a request with amount -5 and an empty method, with no
  idempotency key, is answered 201; a pending payment row with amount -5 and method ''
  is created and its job is enqueued.
\<close>

theorem negative_amount_payment_counterexample:
  "cached_response ex_shop None ''m_A'' = None \<and> \<not> (0 < (- 5 :: int)) \<and>
   post_payments ex_amb ex_shop ''m_A'' (Some ''ORDER_2'') (Some (- 5)) (Some []) None =
     (\<lparr>res_status = 201,
        res_body = PaymentJson ''pay_3f2b8c1e9d4a4f6'' (Some ''ORDER_2'') (Some (- 5)) ''pending''\<rparr>,
      ex_shop\<lparr>payments := [\<lparr>p_id = ''pay_3f2b8c1e9d4a4f6'', p_merchant_id = Some ''m_A'',
                  p_order_id = ''ORDER_2'', p_amount = - 5, p_status = ''pending'',
                  p_captured = False, p_method = Some [], p_created_at = 1700000000000,
                  p_updated_at = 1700000000000\<rparr>],
         payment_queue := [''pay_3f2b8c1e9d4a4f6'']\<rparr>)"
  by (simp add: ex_shop_def ex_amb_def handler_defs Let_def)

text \<open>The amended C6 at that request.\<close>

theorem payment_created_without_validation_witness:
  "cached_response ex_shop None ''m_A'' = None \<and>
   payment_insert_ok ex_shop (short_id ''pay_'' ex_amb) (Some ''ORDER_2'') (Some (- 5)) (Some []) \<and>
   a_queue_up ex_amb \<and>
   res_status (fst (post_payments ex_amb ex_shop ''m_A'' (Some ''ORDER_2'') (Some (- 5)) (Some [])
                      None)) = 201 \<and>
   payment_queue (snd (post_payments ex_amb ex_shop ''m_A'' (Some ''ORDER_2'') (Some (- 5))
                         (Some []) None)) = [''pay_3f2b8c1e9d4a4f6''] \<and>
   \<not> payment_insert_ok ex_shop (short_id ''pay_'' ex_amb) None (Some 100) (Some ''upi'') \<and>
   post_payments ex_amb ex_shop ''m_A'' None (Some 100) (Some ''upi'') None =
     (\<lparr>res_status = 500, res_body = InternalErrorJson\<rparr>, ex_shop)"
proof -
  have h1: "cached_response ex_shop None ''m_A'' = None"
    by (simp add: cached_response_def)
  have sid: "short_id ''pay_'' ex_amb = ''pay_3f2b8c1e9d4a4f6''"
    by (simp add: short_id_def ex_amb_def)
  have h2: "payment_insert_ok ex_shop (short_id ''pay_'' ex_amb) (Some ''ORDER_2'') (Some (- 5))
              (Some [])"
    by (simp add: ex_shop_def ex_amb_def handler_defs)
  have h2': "a_queue_up ex_amb" "payment_queue ex_shop = []"
    by (simp_all add: ex_shop_def ex_amb_def)
  have h3: "\<not> payment_insert_ok ex_shop (short_id ''pay_'' ex_amb) None (Some 100) (Some ''upi'')"
    by (simp add: payment_insert_ok_def)
  have c1: "res_status (fst (post_payments ex_amb ex_shop ''m_A'' (Some ''ORDER_2'') (Some (- 5))
                (Some []) None)) = 201 \<and>
            payment_queue (snd (post_payments ex_amb ex_shop ''m_A'' (Some ''ORDER_2'') (Some (- 5))
                (Some []) None)) = [''pay_3f2b8c1e9d4a4f6'']"
    using payment_created_without_validation
         [OF h1, where a = ex_amb and order_id = "Some ''ORDER_2''" and amount = "Some (- 5)"
            and pay_method = "Some []"]
       h2 h2' sid
    by auto
  from payment_created_without_validation
         [OF h1, where a = ex_amb and order_id = None and amount = "Some 100"
            and pay_method = "Some ''upi''"]
       h3
  have "res_status (fst (post_payments ex_amb ex_shop ''m_A'' None (Some 100) (Some ''upi'') None))
          = 500 \<and>
        snd (post_payments ex_amb ex_shop ''m_A'' None (Some 100) (Some ''upi'') None) = ex_shop"
    by auto
  moreover have "res_body (fst (post_payments ex_amb ex_shop ''m_A'' None (Some 100) (Some ''upi'')
                  None)) = InternalErrorJson"
    by (simp add: post_payments_def cached_response_def payment_insert_ok_def Let_def)
  ultimately have c2: "post_payments ex_amb ex_shop ''m_A'' None (Some 100) (Some ''upi'') None =
     (\<lparr>res_status = 500, res_body = InternalErrorJson\<rparr>, ex_shop)"
    by (cases "post_payments ex_amb ex_shop ''m_A'' None (Some 100) (Some ''upi'') None") auto
  from h1 h2 h2' h3 c1 c2 show ?thesis by simp
qed

text \<open>
  C8 at a failing input. The ledger holds merchant m_B's payment pay_B and its refund
  under key key-B. Merchant m_A asks the server route for a refund of 300 on pay_B: the
  request is answered 201 and a refund row is written on m_B's payment, owned by m_B.
  The repository's lookup by idempotency key has no tenant argument and hands m_B's
  refund to any caller that presents the key, and so does \<open>processRefund\<close>.
\<close>

theorem cross_tenant_refund_accepted:
  "p_merchant_id ex_payment_B = Some ''m_B'' \<and>
   payments ex_two_tenants = [ex_payment_B] \<and>
   post_refunds ex_amb ex_two_tenants ''m_A'' ''pay_B'' (Some 300) (Some ''mine'') =
     (\<lparr>res_status = 201,
        res_body = RefundCreatedJson ''rfnd_3f2b8c1e9d4a4f6'' ''pay_B'' (Some 300) ''pending''\<rparr>,
      ex_two_tenants\<lparr>refunds := [ex_refund_B,
          \<lparr>r_id = ''rfnd_3f2b8c1e9d4a4f6'', r_payment_id = ''pay_B'', r_merchant_id = Some ''m_B'',
            r_amount = 300, r_reason = Some ''mine'', r_status = ''pending'',
            r_idempotency_key = None, r_created_at = 1700000000000, r_processed_at = None\<rparr>],
        refund_queue := [''rfnd_3f2b8c1e9d4a4f6'']\<rparr>) \<and>
   findRefundByIdempotencyKey ex_two_tenants ''key-B'' = Some (refund_columns ex_refund_B) \<and>
   processRefund ex_amb ex_two_tenants ''pay_A'' 1 ''mine'' (Some ''key-B'') =
     (Inr (refund_columns ex_refund_B), ex_two_tenants)"
  by (simp add: ex_two_tenants_def ex_payment_B_def ex_refund_B_def ex_shop_def ex_amb_def
        model_defs Let_def)

lemma find_map_update:
  assumes "\<And>x. key (f x) = key x"
  shows "find (\<lambda>x. key x = i) (map (\<lambda>x. if key x = i then f x else x) xs) =
         map_option f (find (\<lambda>x. key x = i) xs)"
  using assms by (induction xs) auto

lemma find_after_update_payment:
  "find (\<lambda>p. p_id p = i) (payments (update_payment_status a st i s)) =
   map_option (\<lambda>p. p\<lparr>p_status := st, p_updated_at := a_now a\<rparr>)
     (find (\<lambda>p. p_id p = i) (payments s))"
  using find_map_update[of p_id "\<lambda>p. p\<lparr>p_status := st, p_updated_at := a_now a\<rparr>" i "payments s"]
  by (simp add: update_payment_status_def)

lemma paymentWorker_payments:
  "find (\<lambda>p. p_id p = i) (payments s) = Some p \<Longrightarrow> determine_outcome a (Some p) = Inr ok \<Longrightarrow>
   payments (snd (paymentWorker a s i)) =
     payments (update_payment_status a (if ok then ''success'' else ''failed'') i s)"
  by (simp add: paymentWorker_def Let_def update_payment_status_def)

lemma refundWorker_refunds:
  "refunds (snd (refundWorker a s i)) =
     map (\<lambda>r. if r_id r = i then r\<lparr>r_status := ''processed'', r_processed_at := Some (a_now a)\<rparr>
               else r) (refunds s)"
  by (simp add: refundWorker_def Let_def split: option.splits)

text \<open>
  C2, as stated, fails: the payment pay_1 has status success; a settlement job for it is
  delivered again, this time with a draw of 99 against the bound 90 for method upi, and
  the worker writes status failed.
\<close>

theorem replayed_settlement_counterexample:
  "map_option p_status (getPaymentById ex_system ''pay_1'') = Some ''success'' \<and>
   fst (paymentWorker ex_amb_unlucky ex_system ''pay_1'') = None \<and>
   map_option p_status
     (getPaymentById (snd (paymentWorker ex_amb_unlucky ex_system ''pay_1'')) ''pay_1'') =
     Some ''failed''"
  by (simp add: ex_amb_unlucky_def ex_defs getPaymentById_def paymentWorker_def
        determine_outcome_def update_payment_status_def payment_webhook_job_def Let_def)

text \<open>
  C2, amended. The workers write the status without looking at the current one. After a
  payment job whose outcome was drawn for an existing payment, the row found under that
  id is the old row with status set to the outcome (success or failed) and updated_at
  restamped, whatever the status was. After a refund job the row found under the refund
  id is the old row with status processed and processed_at restamped, whatever the status
  was.
\<close>

theorem worker_status_write_unconditional:
  "(find (\<lambda>p. p_id p = paymentId) (payments s) = Some p \<and>
    determine_outcome a (Some p) = Inr ok \<longrightarrow>
      find (\<lambda>p. p_id p = paymentId) (payments (snd (paymentWorker a s paymentId))) =
        Some (p\<lparr>p_status := (if ok then ''success'' else ''failed''),
                 p_updated_at := a_now a\<rparr>)) \<and>
   (find (\<lambda>r. r_id r = refundId) (refunds s) = Some r \<longrightarrow>
      find (\<lambda>r. r_id r = refundId) (refunds (snd (refundWorker a s refundId))) =
        Some (r\<lparr>r_status := ''processed'', r_processed_at := Some (a_now a)\<rparr>))"
proof (intro conjI impI)
  assume h: "find (\<lambda>p. p_id p = paymentId) (payments s) = Some p \<and>
    determine_outcome a (Some p) = Inr ok"
  then show "find (\<lambda>p. p_id p = paymentId) (payments (snd (paymentWorker a s paymentId))) =
        Some (p\<lparr>p_status := (if ok then ''success'' else ''failed''), p_updated_at := a_now a\<rparr>)"
    using paymentWorker_payments[of paymentId s p a ok]
    by (simp add: find_after_update_payment)
next
  assume h: "find (\<lambda>r. r_id r = refundId) (refunds s) = Some r"
  have "find (\<lambda>r. r_id r = refundId)
          (map (\<lambda>r. if r_id r = refundId
                     then r\<lparr>r_status := ''processed'', r_processed_at := Some (a_now a)\<rparr>
                     else r) (refunds s)) =
        map_option (\<lambda>r. r\<lparr>r_status := ''processed'', r_processed_at := Some (a_now a)\<rparr>)
          (find (\<lambda>r. r_id r = refundId) (refunds s))"
    by (rule find_map_update) simp
  with h show "find (\<lambda>r. r_id r = refundId) (refunds (snd (refundWorker a s refundId))) =
        Some (r\<lparr>r_status := ''processed'', r_processed_at := Some (a_now a)\<rparr>)"
    by (simp add: refundWorker_refunds)
qed

text \<open>The amended C2 at the replay above, and at a refund job replayed on a refund that
  is already processed.\<close>

theorem worker_status_write_unconditional_witness:
  "find (\<lambda>p. p_id p = ''pay_1'') (payments ex_settled) = Some ex_payment \<and>
   p_status ex_payment = ''success'' \<and>
   determine_outcome ex_amb_unlucky (Some ex_payment) = Inr False \<and>
   find (\<lambda>p. p_id p = ''pay_1'') (payments (snd (paymentWorker ex_amb_unlucky ex_settled ''pay_1''))) =
     Some (ex_payment\<lparr>p_status := ''failed'', p_updated_at := 1700000060000\<rparr>) \<and>
   find (\<lambda>r. r_id r = ''rfnd_0'') (refunds ex_settled) = Some ex_refund_done \<and>
   find (\<lambda>r. r_id r = ''rfnd_0'') (refunds (snd (refundWorker ex_amb_unlucky ex_settled ''rfnd_0''))) =
     Some (ex_refund_done\<lparr>r_processed_at := Some 1700000060000\<rparr>)"
proof -
  have h1: "find (\<lambda>p. p_id p = ''pay_1'') (payments ex_settled) = Some ex_payment \<and>
            determine_outcome ex_amb_unlucky (Some ex_payment) = Inr False"
    by (simp add: ex_settled_def ex_amb_unlucky_def ex_defs determine_outcome_def)
  have h2: "find (\<lambda>r. r_id r = ''rfnd_0'') (refunds ex_settled) = Some ex_refund_done"
    by (simp add: ex_settled_def ex_refund_done_def ex_defs)
  have h3: "p_status ex_payment = ''success'' \<and> a_now ex_amb_unlucky = 1700000060000 \<and>
            ex_refund_done\<lparr>r_status := ''processed''\<rparr> = ex_refund_done"
    by (simp add: ex_amb_unlucky_def ex_refund_done_def ex_defs)
  from worker_status_write_unconditional
         [where paymentId = "''pay_1''" and s = ex_settled and p = ex_payment
            and a = ex_amb_unlucky and ok = False and refundId = "''rfnd_0''"
            and r = ex_refund_done]
       h1 h2 h3
  show ?thesis by simp
qed

lemma all_rows_updated_list:
  "list_all (\<lambda>q. p_id q = i \<longrightarrow> p_status q = st)
     (map (\<lambda>p. if p_id p = i then p\<lparr>p_status := st, p_updated_at := n\<rparr> else p) ps)"
  by (induction ps) simp_all

lemma all_rows_updated:
  "list_all (\<lambda>q. p_id q = i \<longrightarrow> p_status q = st) (payments (update_payment_status a st i s))"
  by (simp add: update_payment_status_def all_rows_updated_list)

text \<open>
  C10. In the enhanced payment worker, when the payment exists, the outcome is success
  and the enqueue of the webhook job throws, the \<open>try\<close> part has already written status
  success; the \<open>catch\<close> then overwrites it with failed and the error is rethrown. More
  generally, whenever the enhanced worker ends with an error, every payment row under
  the job's id has status failed afterwards.
\<close>

theorem enhanced_worker_error_overwrites_status:
  "(find (\<lambda>p. p_id p = paymentId) (payments s) = Some p \<and>
    determine_outcome a (Some p) = Inr True \<and> \<not> a_queue_up a \<longrightarrow>
      find (\<lambda>p. p_id p = paymentId) (payments (snd (paymentWorkerEnhanced_try a s paymentId))) =
        Some (p\<lparr>p_status := ''success'', p_updated_at := a_now a\<rparr>) \<and>
      fst (paymentWorkerEnhanced a s paymentId) = Some (Error ''Queue unavailable'' None None) \<and>
      find (\<lambda>p. p_id p = paymentId) (payments (snd (paymentWorkerEnhanced a s paymentId))) =
        Some (p\<lparr>p_status := ''failed'', p_updated_at := a_now a\<rparr>)) \<and>
   (fst (paymentWorkerEnhanced a s paymentId) = Some e \<longrightarrow>
      list_all (\<lambda>q. p_id q = paymentId \<longrightarrow> p_status q = ''failed'')
        (payments (snd (paymentWorkerEnhanced a s paymentId))))"
proof (intro conjI impI)
  assume h: "find (\<lambda>p. p_id p = paymentId) (payments s) = Some p \<and>
    determine_outcome a (Some p) = Inr True \<and> \<not> a_queue_up a"
  then have t: "paymentWorkerEnhanced_try a s paymentId =
      (Some (Error ''Queue unavailable'' None None), update_payment_status a ''success'' paymentId s)"
    by (simp add: paymentWorkerEnhanced_try_def Let_def)
  from h t show "find (\<lambda>p. p_id p = paymentId)
        (payments (snd (paymentWorkerEnhanced_try a s paymentId))) =
        Some (p\<lparr>p_status := ''success'', p_updated_at := a_now a\<rparr>)"
    by (simp add: find_after_update_payment)
  from t show "fst (paymentWorkerEnhanced a s paymentId) = Some (Error ''Queue unavailable'' None None)"
    by (simp add: paymentWorkerEnhanced_def)
  from h t show "find (\<lambda>p. p_id p = paymentId) (payments (snd (paymentWorkerEnhanced a s paymentId))) =
        Some (p\<lparr>p_status := ''failed'', p_updated_at := a_now a\<rparr>)"
    by (simp add: paymentWorkerEnhanced_def find_after_update_payment)
next
  assume e: "fst (paymentWorkerEnhanced a s paymentId) = Some e"
  obtain r s' where t: "paymentWorkerEnhanced_try a s paymentId = (r, s')"
    by (cases "paymentWorkerEnhanced_try a s paymentId")
  with e have "snd (paymentWorkerEnhanced a s paymentId) =
                 update_payment_status a ''failed'' paymentId s'"
    by (cases r) (simp_all add: paymentWorkerEnhanced_def)
  then show "list_all (\<lambda>q. p_id q = paymentId \<longrightarrow> p_status q = ''failed'')
        (payments (snd (paymentWorkerEnhanced a s paymentId)))"
    by (simp add: all_rows_updated)
qed

text \<open>C10 on a pending payment, in test mode with outcome success, the queue refusing the
  job.\<close>

theorem enhanced_worker_error_overwrites_status_witness:
  "find (\<lambda>p. p_id p = ''pay_1'') (payments ex_pending) = Some (ex_payment\<lparr>p_status := ''pending''\<rparr>) \<and>
   determine_outcome ex_amb_queue_down (Some (ex_payment\<lparr>p_status := ''pending''\<rparr>)) = Inr True \<and>
   \<not> a_queue_up ex_amb_queue_down \<and>
   map p_status (payments (snd (paymentWorkerEnhanced_try ex_amb_queue_down ex_pending ''pay_1''))) =
     [''success''] \<and>
   fst (paymentWorkerEnhanced ex_amb_queue_down ex_pending ''pay_1'') =
     Some (Error ''Queue unavailable'' None None) \<and>
   find (\<lambda>p. p_id p = ''pay_1'')
     (payments (snd (paymentWorkerEnhanced ex_amb_queue_down ex_pending ''pay_1''))) =
     Some (ex_payment\<lparr>p_status := ''failed'', p_updated_at := 1700000030000\<rparr>) \<and>
   list_all (\<lambda>q. p_id q = ''pay_1'' \<longrightarrow> p_status q = ''failed'')
     (payments (snd (paymentWorkerEnhanced ex_amb_queue_down ex_pending ''pay_1'')))"
proof -
  have h1: "find (\<lambda>p. p_id p = ''pay_1'') (payments ex_pending) =
              Some (ex_payment\<lparr>p_status := ''pending''\<rparr>) \<and>
            determine_outcome ex_amb_queue_down (Some (ex_payment\<lparr>p_status := ''pending''\<rparr>)) =
              Inr True \<and>
            \<not> a_queue_up ex_amb_queue_down"
    by (simp add: ex_pending_def ex_amb_queue_down_def ex_defs determine_outcome_def)
  have now: "a_now ex_amb_queue_down = 1700000030000"
    by (simp add: ex_amb_queue_down_def)
  have h2: "map p_status
              (payments (snd (paymentWorkerEnhanced_try ex_amb_queue_down ex_pending ''pay_1''))) =
            [''success'']"
    by (simp add: ex_pending_def ex_amb_queue_down_def ex_defs paymentWorkerEnhanced_try_def
          determine_outcome_def update_payment_status_def Let_def)
  note t = enhanced_worker_error_overwrites_status
         [where paymentId = "''pay_1''" and s = ex_pending
            and p = "ex_payment\<lparr>p_status := ''pending''\<rparr>" and a = ex_amb_queue_down
            and e = "Error ''Queue unavailable'' None None"]
  note c = t[THEN conjunct1, THEN mp, OF h1]
  note c1 = c[THEN conjunct2, THEN conjunct1]
  have c2: "find (\<lambda>p. p_id p = ''pay_1'')
     (payments (snd (paymentWorkerEnhanced ex_amb_queue_down ex_pending ''pay_1''))) =
     Some (ex_payment\<lparr>p_status := ''failed'', p_updated_at := 1700000030000\<rparr>)"
    using c[THEN conjunct2, THEN conjunct2] by (simp add: now)
  note c3 = t[THEN conjunct2, THEN mp, OF c1]
  show ?thesis
    by (intro conjI)
       (rule h1[THEN conjunct1] h1[THEN conjunct2, THEN conjunct1]
             h1[THEN conjunct2, THEN conjunct2] h2 c1 c2 c3)+
qed

lemma delay_seconds_production:
  "1 \<le> n \<Longrightarrow> n < 5 \<Longrightarrow> \<not> env_webhook_retry_intervals_test a \<Longrightarrow>
   delay_seconds (retry_delays a) n = production_delays ! nat n \<and>
   production_delays ! nat n \<in> {60, 300, 1800, 7200}"
proof -
  assume "1 \<le> n" "n < 5" and e: "\<not> env_webhook_retry_intervals_test a"
  then have "n = 1 \<or> n = 2 \<or> n = 3 \<or> n = 4" by arith
  then show ?thesis using e
    by (auto simp: delay_seconds_def retry_delays_def production_delays_def numeral_2_eq_2
          numeral_3_eq_3 eval_nat_numeral)
qed

lemma webhook_failure_step:
  assumes m: "wj_merchantId job = Some mid" "find (\<lambda>m. m_id m = mid) (merchants s) = Some m"
      "m_webhook_url m = Some url" "url \<noteq> []" "m_webhook_secret m = Some secret"
    and ev: "length (wj_event job) \<le> 50"
    and f: "\<forall>req. post req \<noteq> Delivered"
  shows "fst (webhookWorker a hmac post s job) = None \<and>
         merchants (snd (webhookWorker a hmac post s job)) = merchants s \<and>
         payments (snd (webhookWorker a hmac post s job)) = payments s \<and>
         length (http_sent (snd (webhookWorker a hmac post s job))) = Suc (length (http_sent s)) \<and>
         (job_attempt job < 5 \<longrightarrow>
            (\<exists>row. webhook_logs (snd (webhookWorker a hmac post s job)) = webhook_logs s @ [row] \<and>
                   wl_status row = ''pending'' \<and> wl_attempts row = job_attempt job + 1 \<and>
                   wl_next_retry_at row =
                     Some (a_now a + delay_seconds (retry_delays a) (job_attempt job) * 1000)) \<and>
            webhook_queue (snd (webhookWorker a hmac post s job)) =
              (if a_queue_up a
               then webhook_queue s @ [(job\<lparr>wj_attempt := Some (job_attempt job + 1)\<rparr>,
                                         delay_seconds (retry_delays a) (job_attempt job) * 1000)]
               else webhook_queue s)) \<and>
         (\<not> job_attempt job < 5 \<longrightarrow>
            (\<exists>row. webhook_logs (snd (webhookWorker a hmac post s job)) = webhook_logs s @ [row] \<and>
                   wl_status row = ''failed'' \<and> wl_attempts row = job_attempt job \<and>
                   wl_next_retry_at row = None) \<and>
            webhook_queue (snd (webhookWorker a hmac post s job)) = webhook_queue s)"
proof -
  define payload where "payload = \<lparr>pl_event = wj_event job, pl_timestamp = a_now a div 1000,
     pl_payment = (case wj_paymentId job of None \<Rightarrow> None
                   | Some pid \<Rightarrow> find (\<lambda>p. p_id p = pid) (payments s))\<rparr>"
  define req where "req = \<lparr>wp_url = url, wp_payload = payload, wp_signature = hmac secret payload\<rparr>"
  from f obtain rc where rc: "post req = Failed rc" by (cases "post req") auto
  show ?thesis
    using m ev rc
    by (simp add: webhookWorker_def Let_def truthy_def insert_webhook_log_def payload_def[symmetric]
          req_def[symmetric])
qed

lemma run_webhook_queue_nil:
  "webhook_queue s = [] \<Longrightarrow> run_webhook_queue amb hmac post k s = s"
  by (subst run_webhook_queue.simps) simp

lemma run_webhook_queue_cons:
  "webhook_queue s = (job, d) # rest \<Longrightarrow>
   run_webhook_queue amb hmac post k s =
     run_webhook_queue amb hmac post (Suc k)
       (snd (webhookWorker (amb k) hmac post (s\<lparr>webhook_queue := rest\<rparr>) job))"
  by (subst run_webhook_queue.simps) simp

lemma run_failing_chain:
  assumes "wj_merchantId job = Some mid" "find (\<lambda>m. m_id m = mid) (merchants s) = Some m"
      "m_webhook_url m = Some url" "url \<noteq> []" "m_webhook_secret m = Some secret"
    and "length (wj_event job) \<le> 50"
    and f: "\<forall>req. post req \<noteq> Delivered"
    and env: "\<forall>i. a_queue_up (amb i) \<and> \<not> env_webhook_retry_intervals_test (amb i)"
    and "webhook_queue s = [(job, delay)]"
    and "1 \<le> job_attempt job" "job_attempt job \<le> 5"
    and "d = nat (5 - job_attempt job)"
  shows "\<exists>rows. webhook_logs (run_webhook_queue amb hmac post k s) = webhook_logs s @ rows \<and>
           map wl_status rows = replicate d ''pending'' @ [''failed''] \<and>
           map wl_attempts rows = map (\<lambda>i. i + 1) [job_attempt job..4] @ [5] \<and>
           map wl_next_retry_at rows =
             map (\<lambda>i. Some (a_now (amb (k + nat (i - job_attempt job))) +
                              production_delays ! nat i * 1000)) [job_attempt job..4] @ [None] \<and>
           length (http_sent (run_webhook_queue amb hmac post k s)) = length (http_sent s) + Suc d \<and>
           webhook_queue (run_webhook_queue amb hmac post k s) = []"
  using assms
proof (induction d arbitrary: job s k delay)
  case 0
  then have n: "job_attempt job = 5" by simp
  let ?s0 = "s\<lparr>webhook_queue := []\<rparr>"
  let ?s1 = "snd (webhookWorker (amb k) hmac post ?s0 job)"
  from webhook_failure_step[of job mid ?s0 m url secret post "amb k" hmac] "0.prems" n
  obtain row where row: "webhook_logs ?s1 = webhook_logs s @ [row]" "wl_status row = ''failed''"
      "wl_attempts row = 5" "wl_next_retry_at row = None"
      "length (http_sent ?s1) = Suc (length (http_sent s))" "webhook_queue ?s1 = []"
    by auto
  have run: "run_webhook_queue amb hmac post k s = ?s1"
    using run_webhook_queue_cons[OF "0.prems"(9)] row(6)
    by (simp add: run_webhook_queue_nil)
  show ?case using run n row by simp
next
  case (Suc d)
  then have n: "job_attempt job < 5" "1 \<le> job_attempt job" by simp_all
  let ?n = "job_attempt job"
  let ?s0 = "s\<lparr>webhook_queue := []\<rparr>"
  let ?s1 = "snd (webhookWorker (amb k) hmac post ?s0 job)"
  let ?job = "job\<lparr>wj_attempt := Some (?n + 1)\<rparr>"
  from Suc.prems(8) have envk: "a_queue_up (amb k)" "\<not> env_webhook_retry_intervals_test (amb k)"
    by simp_all
  have dl: "delay_seconds (retry_delays (amb k)) ?n = production_delays ! nat ?n"
    using delay_seconds_production[OF n(2) n(1) envk(2)] by simp
  have run: "run_webhook_queue amb hmac post k s = run_webhook_queue amb hmac post (Suc k) ?s1"
    using run_webhook_queue_cons[OF Suc.prems(9)] by simp
  from webhook_failure_step[of job mid ?s0 m url secret post "amb k" hmac] Suc.prems n envk dl
  obtain row where row: "webhook_logs ?s1 = webhook_logs s @ [row]" "wl_status row = ''pending''"
      "wl_attempts row = ?n + 1"
      "wl_next_retry_at row = Some (a_now (amb k) + production_delays ! nat ?n * 1000)"
    and s1: "length (http_sent ?s1) = Suc (length (http_sent s))"
      "webhook_queue ?s1 = [(?job, production_delays ! nat ?n * 1000)]"
      "merchants ?s1 = merchants s"
    by auto
  have ja: "job_attempt ?job = ?n + 1" by (simp add: job_attempt_def)
  have "\<exists>rows. webhook_logs (run_webhook_queue amb hmac post (Suc k) ?s1) = webhook_logs ?s1 @ rows \<and>
           map wl_status rows = replicate d ''pending'' @ [''failed''] \<and>
           map wl_attempts rows = map (\<lambda>i. i + 1) [job_attempt ?job..4] @ [5] \<and>
           map wl_next_retry_at rows =
             map (\<lambda>i. Some (a_now (amb (Suc k + nat (i - job_attempt ?job))) +
                              production_delays ! nat i * 1000)) [job_attempt ?job..4] @ [None] \<and>
           length (http_sent (run_webhook_queue amb hmac post (Suc k) ?s1)) =
             length (http_sent ?s1) + Suc d \<and>
           webhook_queue (run_webhook_queue amb hmac post (Suc k) ?s1) = []"
  proof (rule Suc.IH[of ?job ?s1 "production_delays ! nat ?n * 1000" "Suc k"])
    show "wj_merchantId ?job = Some mid" using Suc.prems(1) by simp
    show "find (\<lambda>m. m_id m = mid) (merchants ?s1) = Some m" using s1(3) Suc.prems(2) by simp
    show "m_webhook_url m = Some url" "url \<noteq> []" "m_webhook_secret m = Some secret"
      using Suc.prems by simp_all
    show "length (wj_event ?job) \<le> 50" using Suc.prems(6) by simp
    show "\<forall>req. post req \<noteq> Delivered" by (rule Suc.prems(7))
    show "\<forall>i. a_queue_up (amb i) \<and> \<not> env_webhook_retry_intervals_test (amb i)" by (rule Suc.prems(8))
    show "webhook_queue ?s1 = [(?job, production_delays ! nat ?n * 1000)]" by (rule s1(2))
    show "1 \<le> job_attempt ?job" "job_attempt ?job \<le> 5" using n ja by simp_all
    show "d = nat (5 - job_attempt ?job)" using Suc.prems(12) ja by simp
  qed
  then obtain rows where rows:
      "webhook_logs (run_webhook_queue amb hmac post (Suc k) ?s1) = webhook_logs ?s1 @ rows"
      "map wl_status rows = replicate d ''pending'' @ [''failed'']"
      "map wl_attempts rows = map (\<lambda>i. i + 1) [?n + 1..4] @ [5]"
      "map wl_next_retry_at rows =
         map (\<lambda>i. Some (a_now (amb (Suc k + nat (i - (?n + 1)))) +
                          production_delays ! nat i * 1000)) [?n + 1..4] @ [None]"
      "length (http_sent (run_webhook_queue amb hmac post (Suc k) ?s1)) =
         length (http_sent ?s1) + Suc d"
      "webhook_queue (run_webhook_queue amb hmac post (Suc k) ?s1) = []"
    using ja by auto
  have up: "[?n..4] = ?n # [?n + 1..4]" using n by (simp add: upto_rec1)
  have shift: "map (\<lambda>i. Some (a_now (amb (Suc k + nat (i - (?n + 1)))) +
                          production_delays ! nat i * 1000)) [?n + 1..4] =
               map (\<lambda>i. Some (a_now (amb (k + nat (i - ?n))) +
                          production_delays ! nat i * 1000)) [?n + 1..4]"
  proof (rule map_cong[OF refl])
    fix i assume "i \<in> set [?n + 1..4]"
    then have "Suc k + nat (i - (?n + 1)) = k + nat (i - ?n)" by auto
    then have "amb (Suc k + nat (i - (?n + 1))) = amb (k + nat (i - ?n))" by (rule arg_cong)
    then show "Some (a_now (amb (Suc k + nat (i - (?n + 1)))) + production_delays ! nat i * 1000) =
               Some (a_now (amb (k + nat (i - ?n))) + production_delays ! nat i * 1000)"
      by (simp only:)
  qed
  show ?case
    apply (rule exI[of _ "row # rows"])
    using run row rows s1 up shift by simp
qed

text \<open>
  C4. A merchant with a webhook URL and secret, an endpoint that fails every POST, the
  queue accepting every job, production retry intervals, and an event name that fits its
  column. A failure at attempt n with 1 \<le> n < 5 appends one pending log row with
  attempts n + 1 and next_retry_at = now + schedule[n] seconds, and re-enqueues the job
  with attempt n + 1 and that delay, the schedule being [0, 60, 300, 1800, 7200]; a
  failure at attempt n \<ge> 5 appends one failed row and enqueues nothing. So a queue
  holding one job at its first attempt (attempt absent or 1) runs to the end with exactly
  five POSTs and five new log rows, four pending and the last failed, scheduled 60, 300,
  1800 and 7200 seconds after the respective failures, and an empty queue.
\<close>

theorem webhook_exactly_five_attempts:
  assumes "wj_merchantId job = Some mid" and "find (\<lambda>m. m_id m = mid) (merchants s) = Some m"
    and "m_webhook_url m = Some url" and "url \<noteq> []" and "m_webhook_secret m = Some secret"
    and "length (wj_event job) \<le> 50"
    and "\<forall>req. post req \<noteq> Delivered"
    and "\<forall>i. a_queue_up (amb i) \<and> \<not> env_webhook_retry_intervals_test (amb i)"
  shows "(1 \<le> job_attempt job \<and> job_attempt job < 5 \<longrightarrow>
           (\<exists>row. webhook_logs (snd (webhookWorker (amb k) hmac post s job)) =
                    webhook_logs s @ [row] \<and>
                  wl_status row = ''pending'' \<and> wl_attempts row = job_attempt job + 1 \<and>
                  wl_next_retry_at row =
                    Some (a_now (amb k) + production_delays ! nat (job_attempt job) * 1000)) \<and>
           webhook_queue (snd (webhookWorker (amb k) hmac post s job)) =
             webhook_queue s @ [(job\<lparr>wj_attempt := Some (job_attempt job + 1)\<rparr>,
                                 production_delays ! nat (job_attempt job) * 1000)]) \<and>
         (5 \<le> job_attempt job \<longrightarrow>
           (\<exists>row. webhook_logs (snd (webhookWorker (amb k) hmac post s job)) =
                    webhook_logs s @ [row] \<and>
                  wl_status row = ''failed'' \<and> wl_attempts row = job_attempt job) \<and>
           webhook_queue (snd (webhookWorker (amb k) hmac post s job)) = webhook_queue s) \<and>
         (webhook_queue s = [(job, delay)] \<and> (wj_attempt job = None \<or> wj_attempt job = Some 1) \<longrightarrow>
           (\<exists>rows. webhook_logs (run_webhook_queue amb hmac post k s) = webhook_logs s @ rows \<and>
                   map wl_status rows =
                     [''pending'', ''pending'', ''pending'', ''pending'', ''failed''] \<and>
                   map wl_attempts rows = [2, 3, 4, 5, 5] \<and>
                   map wl_next_retry_at rows =
                     [Some (a_now (amb k) + 60000), Some (a_now (amb (k + 1)) + 300000),
                      Some (a_now (amb (k + 2)) + 1800000), Some (a_now (amb (k + 3)) + 7200000),
                      None]) \<and>
           length (http_sent (run_webhook_queue amb hmac post k s)) = length (http_sent s) + 5 \<and>
           webhook_queue (run_webhook_queue amb hmac post k s) = [])"
proof (intro conjI impI)
  note step = webhook_failure_step[OF assms(1-7), of "amb k" hmac]
  from assms(8) have envk: "a_queue_up (amb k)" "\<not> env_webhook_retry_intervals_test (amb k)"
    by simp_all
  {
    assume n: "1 \<le> job_attempt job \<and> job_attempt job < 5"
    then have dl: "delay_seconds (retry_delays (amb k)) (job_attempt job) =
                   production_delays ! nat (job_attempt job)"
      using delay_seconds_production[of "job_attempt job" "amb k"] envk by simp
    from step n dl show "\<exists>row. webhook_logs (snd (webhookWorker (amb k) hmac post s job)) =
                    webhook_logs s @ [row] \<and>
                  wl_status row = ''pending'' \<and> wl_attempts row = job_attempt job + 1 \<and>
                  wl_next_retry_at row =
                    Some (a_now (amb k) + production_delays ! nat (job_attempt job) * 1000)"
      by simp
    from step n dl envk show "webhook_queue (snd (webhookWorker (amb k) hmac post s job)) =
             webhook_queue s @ [(job\<lparr>wj_attempt := Some (job_attempt job + 1)\<rparr>,
                                 production_delays ! nat (job_attempt job) * 1000)]"
      by simp
  }
  {
    assume n: "5 \<le> job_attempt job"
    then have "\<not> job_attempt job < 5" by simp
    with step show "\<exists>row. webhook_logs (snd (webhookWorker (amb k) hmac post s job)) =
                    webhook_logs s @ [row] \<and>
                  wl_status row = ''failed'' \<and> wl_attempts row = job_attempt job"
      by auto
    from step \<open>\<not> job_attempt job < 5\<close>
    show "webhook_queue (snd (webhookWorker (amb k) hmac post s job)) = webhook_queue s"
      by simp
  }
  {
    assume q: "webhook_queue s = [(job, delay)] \<and> (wj_attempt job = None \<or> wj_attempt job = Some 1)"
    then have one: "job_attempt job = 1" by (auto simp: job_attempt_def)
    have upto: "[1..4] = [1, 2, 3, 4 :: int]" by (simp add: upto_rec1)
    from run_failing_chain[OF assms(1-8), where delay = delay and d = 4 and k = k and hmac = hmac]
      q one
    obtain rows where rows:
        "webhook_logs (run_webhook_queue amb hmac post k s) = webhook_logs s @ rows"
        "map wl_status rows = replicate 4 ''pending'' @ [''failed'']"
        "map wl_attempts rows = map (\<lambda>i. i + 1) [1..4] @ [5]"
        "map wl_next_retry_at rows =
           map (\<lambda>i. Some (a_now (amb (k + nat (i - 1))) + production_delays ! nat i * 1000)) [1..4] @
           [None]"
        "length (http_sent (run_webhook_queue amb hmac post k s)) = length (http_sent s) + Suc 4"
        "webhook_queue (run_webhook_queue amb hmac post k s) = []"
      by auto
    have a1: "map wl_status rows = [''pending'', ''pending'', ''pending'', ''pending'', ''failed'']"
      using rows(2) by (simp add: numeral_eq_Suc)
    have a2: "map wl_attempts rows = [2, 3, 4, 5, 5]"
      using rows(3) by (simp add: upto)
    have a3: "map wl_next_retry_at rows =
                     [Some (a_now (amb k) + 60000), Some (a_now (amb (k + 1)) + 300000),
                      Some (a_now (amb (k + 2)) + 1800000), Some (a_now (amb (k + 3)) + 7200000),
                      None]"
      using rows(4) by (simp add: upto production_delays_def numeral_2_eq_2 numeral_3_eq_3
                          eval_nat_numeral)
    show "\<exists>rows. webhook_logs (run_webhook_queue amb hmac post k s) = webhook_logs s @ rows \<and>
                   map wl_status rows =
                     [''pending'', ''pending'', ''pending'', ''pending'', ''failed''] \<and>
                   map wl_attempts rows = [2, 3, 4, 5, 5] \<and>
                   map wl_next_retry_at rows =
                     [Some (a_now (amb k) + 60000), Some (a_now (amb (k + 1)) + 300000),
                      Some (a_now (amb (k + 2)) + 1800000), Some (a_now (amb (k + 3)) + 7200000),
                      None]"
      by (rule exI[of _ rows]) (intro conjI rows(1) a1 a2 a3)
    from rows(5) show "length (http_sent (run_webhook_queue amb hmac post k s)) =
                       length (http_sent s) + 5"
      by simp
    from rows(6) show "webhook_queue (run_webhook_queue amb hmac post k s) = []" .
  }
qed

text \<open>C4 for merchant m_A behind an endpoint that answers 500 every time: the job of a
  settled payment at its first attempt, and the same job arriving at attempt 5.\<close>

theorem webhook_exactly_five_attempts_witness:
  "wj_merchantId ex_job = Some ''m_A'' \<and>
   find (\<lambda>m. m_id m = ''m_A'') (merchants ex_delivering) =
     Some \<lparr>m_id = ''m_A'', m_api_key = ''key_A'', m_webhook_url = Some ''https://a.example/hook'',
           m_webhook_secret = Some ''whsec_A''\<rparr> \<and>
   ''https://a.example/hook'' \<noteq> [] \<and> length (wj_event ex_job) \<le> 50 \<and>
   (\<forall>req. ex_endpoint_down req \<noteq> Delivered) \<and>
   (\<forall>i. a_queue_up (ex_clock i) \<and> \<not> env_webhook_retry_intervals_test (ex_clock i)) \<and>
   webhook_queue ex_delivering = [(ex_job, 0)] \<and> wj_attempt ex_job = None \<and>
   1 \<le> job_attempt ex_job \<and> job_attempt ex_job < 5 \<and>
   5 \<le> job_attempt (ex_job\<lparr>wj_attempt := Some 5\<rparr>) \<and>
   map wl_status (webhook_logs (run_webhook_queue ex_clock ex_hmac ex_endpoint_down 0 ex_delivering)) =
     [''pending'', ''pending'', ''pending'', ''pending'', ''failed''] \<and>
   map wl_attempts (webhook_logs (run_webhook_queue ex_clock ex_hmac ex_endpoint_down 0 ex_delivering)) =
     [2, 3, 4, 5, 5] \<and>
   map wl_next_retry_at
     (webhook_logs (run_webhook_queue ex_clock ex_hmac ex_endpoint_down 0 ex_delivering)) =
     [Some 1700000060000, Some 1700010300000, Some 1700021800000, Some 1700037200000, None] \<and>
   length (http_sent (run_webhook_queue ex_clock ex_hmac ex_endpoint_down 0 ex_delivering)) = 5 \<and>
   webhook_queue (run_webhook_queue ex_clock ex_hmac ex_endpoint_down 0 ex_delivering) = [] \<and>
   webhook_queue (snd (webhookWorker (ex_clock 0) ex_hmac ex_endpoint_down ex_delivering ex_job)) =
     [(ex_job, 0), (ex_job\<lparr>wj_attempt := Some 2\<rparr>, 60000)] \<and>
   webhook_queue (snd (webhookWorker (ex_clock 0) ex_hmac ex_endpoint_down ex_delivering
                         (ex_job\<lparr>wj_attempt := Some 5\<rparr>))) = [(ex_job, 0)]"
proof -
  have h1: "wj_merchantId ex_job = Some ''m_A''" by (simp add: ex_job_def)
  have h1': "wj_merchantId (ex_job\<lparr>wj_attempt := Some 5\<rparr>) = Some ''m_A''" by (simp add: ex_job_def)
  have h2: "find (\<lambda>m. m_id m = ''m_A'') (merchants ex_delivering) =
     Some \<lparr>m_id = ''m_A'', m_api_key = ''key_A'', m_webhook_url = Some ''https://a.example/hook'',
           m_webhook_secret = Some ''whsec_A''\<rparr>"
    by (simp add: ex_delivering_def ex_shop_def)
  have h3: "m_webhook_url \<lparr>m_id = ''m_A'', m_api_key = ''key_A'',
              m_webhook_url = Some ''https://a.example/hook'',
              m_webhook_secret = Some ''whsec_A''\<rparr> = Some ''https://a.example/hook''"
    by simp
  have h4: "''https://a.example/hook'' \<noteq> []" by simp
  have h5: "m_webhook_secret \<lparr>m_id = ''m_A'', m_api_key = ''key_A'',
              m_webhook_url = Some ''https://a.example/hook'',
              m_webhook_secret = Some ''whsec_A''\<rparr> = Some ''whsec_A''"
    by simp
  have h6: "length (wj_event ex_job) \<le> 50" by (simp add: ex_job_def)
  have h6': "length (wj_event (ex_job\<lparr>wj_attempt := Some 5\<rparr>)) \<le> 50" by (simp add: ex_job_def)
  have h7: "\<forall>req. ex_endpoint_down req \<noteq> Delivered" by (simp add: ex_endpoint_down_def)
  have h8: "\<forall>i. a_queue_up (ex_clock i) \<and> \<not> env_webhook_retry_intervals_test (ex_clock i)"
    by (simp add: ex_clock_def ex_amb_def)
  have q: "webhook_queue ex_delivering = [(ex_job, 0)] \<and>
           (wj_attempt ex_job = None \<or> wj_attempt ex_job = Some 1)"
    by (simp add: ex_delivering_def ex_job_def)
  have n1: "1 \<le> job_attempt ex_job \<and> job_attempt ex_job < 5"
    by (simp add: job_attempt_def ex_job_def)
  have n5: "5 \<le> job_attempt (ex_job\<lparr>wj_attempt := Some 5\<rparr>)"
    by (simp add: job_attempt_def)
  have logs: "webhook_logs ex_delivering = []" "http_sent ex_delivering = []"
    by (simp_all add: ex_delivering_def ex_shop_def)
  have clock: "a_now (ex_clock 0) = 1700000000000" "a_now (ex_clock (0 + 1)) = 1700010000000"
      "a_now (ex_clock (0 + 2)) = 1700020000000" "a_now (ex_clock (0 + 3)) = 1700030000000"
    by (simp_all add: ex_clock_def)
  note t = webhook_exactly_five_attempts
             [OF h1 h2 h3 h4 h5 h6 h7 h8, where k = 0 and hmac = ex_hmac and delay = 0]
  note t5 = webhook_exactly_five_attempts
             [OF h1' h2 h3 h4 h5 h6' h7 h8, where k = 0 and hmac = ex_hmac and delay = 0]
  from t[THEN conjunct2, THEN conjunct2, THEN mp, OF q] logs
  obtain rows where rows:
      "webhook_logs (run_webhook_queue ex_clock ex_hmac ex_endpoint_down 0 ex_delivering) = rows"
      "map wl_status rows = [''pending'', ''pending'', ''pending'', ''pending'', ''failed'']"
      "map wl_attempts rows = [2, 3, 4, 5, 5]"
      "map wl_next_retry_at rows =
         [Some (a_now (ex_clock 0) + 60000), Some (a_now (ex_clock (0 + 1)) + 300000),
          Some (a_now (ex_clock (0 + 2)) + 1800000), Some (a_now (ex_clock (0 + 3)) + 7200000),
          None]"
    and fin: "length (http_sent (run_webhook_queue ex_clock ex_hmac ex_endpoint_down 0 ex_delivering)) = 5"
      "webhook_queue (run_webhook_queue ex_clock ex_hmac ex_endpoint_down 0 ex_delivering) = []"
    by auto
  have r4: "map wl_next_retry_at rows =
      [Some 1700000060000, Some 1700010300000, Some 1700021800000, Some 1700037200000, None]"
    using rows(4) by (simp only: clock) simp
  have s1: "webhook_queue (snd (webhookWorker (ex_clock 0) ex_hmac ex_endpoint_down ex_delivering
                ex_job)) = [(ex_job, 0), (ex_job\<lparr>wj_attempt := Some 2\<rparr>, 60000)]"
    using t[THEN conjunct1, THEN mp, OF n1, THEN conjunct2] q n1
    by (simp add: job_attempt_def ex_job_def production_delays_def)
  have s5: "webhook_queue (snd (webhookWorker (ex_clock 0) ex_hmac ex_endpoint_down ex_delivering
                (ex_job\<lparr>wj_attempt := Some 5\<rparr>))) = [(ex_job, 0)]"
    using t5[THEN conjunct2, THEN conjunct1, THEN mp, OF n5, THEN conjunct2] q
    by simp
  have a: "wj_attempt ex_job = None" by (simp add: ex_job_def)
  show ?thesis
    by (intro conjI h1 h2 h4 h6 h7 h8 q[THEN conjunct1] a n1[THEN conjunct1] n1[THEN conjunct2] n5
          rows(2)[folded rows(1)] rows(3)[folded rows(1)] r4[folded rows(1)] fin s1 s5)
qed

lemma webhookWorker_appends:
  "\<exists>new. webhook_logs (snd (webhookWorker a hmac post s job)) = webhook_logs s @ new \<and>
         length new \<le> 1"
  by (auto simp: webhookWorker_def Let_def insert_webhook_log_def
        split: option.splits post_result.splits)

lemma retry_logs:
  "webhook_logs (snd (post_webhook_retry a json_parse s merchantId webhook_id)) =
     (if find (\<lambda>w. wl_id w = webhook_id \<and> wl_merchant_id w = Some merchantId) (webhook_logs s) = None
      then webhook_logs s
      else map (\<lambda>v. if wl_id v = webhook_id then reset_for_retry a v else v) (webhook_logs s))"
  by (auto simp: post_webhook_retry_def Let_def reset_for_retry_def split: option.splits)

lemma others_keep_logs:
  "webhook_logs (snd (paymentWorker a s paymentId)) = webhook_logs s"
  "webhook_logs (snd (paymentWorkerEnhanced a s paymentId)) = webhook_logs s"
  "webhook_logs (snd (refundWorker a s refundId)) = webhook_logs s"
  "webhook_logs (snd (processRefund a s paymentId n reason key)) = webhook_logs s"
  "webhook_logs (snd (post_refunds a s merchantId paymentId amount reason')) = webhook_logs s"
  "webhook_logs (snd (post_payments a s merchantId order_id amount method key)) = webhook_logs s"
proof -
  show "webhook_logs (snd (paymentWorker a s paymentId)) = webhook_logs s"
    by (simp add: paymentWorker_def update_payment_status_def Let_def
          split: sum.splits option.splits)
  show "webhook_logs (snd (paymentWorkerEnhanced a s paymentId)) = webhook_logs s"
    by (simp add: paymentWorkerEnhanced_def paymentWorkerEnhanced_try_def update_payment_status_def
          Let_def split: sum.splits option.splits prod.splits)
  show "webhook_logs (snd (refundWorker a s refundId)) = webhook_logs s"
    by (simp add: refundWorker_def Let_def split: option.splits)
  show "webhook_logs (snd (processRefund a s paymentId n reason key)) = webhook_logs s"
    by (auto simp: processRefund_def createRefund_def Let_def split: sum.splits option.splits)
  show "webhook_logs (snd (post_refunds a s merchantId paymentId amount reason')) = webhook_logs s"
    by (simp add: post_refunds_def Let_def split: option.splits)
  show "webhook_logs (snd (post_payments a s merchantId order_id amount method key)) = webhook_logs s"
    by (simp add: post_payments_def Let_def split: option.splits)
qed

text \<open>
  C9, as stated, fails: merchant m_A's log holds one row, a terminal failure with 5
  attempts and response code 500. The manual retry of that row keeps the log at one row
  and overwrites the row's status, attempts, next_retry_at and response code; the failed
  attempt is no longer in the log. The overwrite precedes the parsing of the payload and
  happens whether or not that succeeds.
\<close>

theorem manual_retry_mutates_counterexample:
  "webhook_logs ex_logged = [ex_log] \<and> wl_status ex_log = ''failed'' \<and> wl_attempts ex_log = 5 \<and>
   wl_response_code ex_log = Some 500 \<and>
   webhook_logs (snd (post_webhook_retry ex_amb2 Some ex_logged ''m_A'' ''wh_1'')) =
     [ex_log\<lparr>wl_status := ''pending'', wl_attempts := 0,
             wl_next_retry_at := Some 1700000005000, wl_response_code := None\<rparr>] \<and>
   webhook_logs (snd (post_webhook_retry ex_amb2 (\<lambda>p. None) ex_logged ''m_A'' ''wh_1'')) =
     [ex_log\<lparr>wl_status := ''pending'', wl_attempts := 0,
             wl_next_retry_at := Some 1700000005000, wl_response_code := None\<rparr>] \<and>
   webhook_logs (snd (post_webhook_retry ex_amb2 Some ex_logged ''m_A'' ''wh_1'')) \<noteq>
     webhook_logs ex_logged"
  by (simp add: ex_logged_def ex_log_def ex_shop_def ex_amb2_def ex_amb_def post_webhook_retry_def
        Let_def)

text \<open>
  C9, amended. The delivery worker only appends: after any delivery (success, scheduled
  retry, terminal failure, or a job dropped or thrown before sending) the log is the old
  log followed by at most one new row. The manual retry never appends or removes a row:
  when the merchant has no row under the id the log is unchanged; otherwise every row
  under that id is reset in place (status pending, attempts 0, next_retry_at now,
  response code NULL) and every other row is unchanged. The payment and refund workers
  and the payment and refund requests leave the log unchanged.
\<close>

theorem webhook_log_append_or_reset:
  "(\<exists>new. webhook_logs (snd (webhookWorker a hmac post s job)) = webhook_logs s @ new \<and>
          length new \<le> 1) \<and>
   length (webhook_logs (snd (post_webhook_retry a json_parse s merchantId webhook_id))) =
     length (webhook_logs s) \<and>
   (\<forall>i < length (webhook_logs s).
      webhook_logs (snd (post_webhook_retry a json_parse s merchantId webhook_id)) ! i =
        (if wl_id (webhook_logs s ! i) = webhook_id \<and>
            find (\<lambda>w. wl_id w = webhook_id \<and> wl_merchant_id w = Some merchantId) (webhook_logs s)
              \<noteq> None
         then reset_for_retry a (webhook_logs s ! i) else webhook_logs s ! i)) \<and>
   webhook_logs (snd (paymentWorker a s paymentId)) = webhook_logs s \<and>
   webhook_logs (snd (paymentWorkerEnhanced a s paymentId)) = webhook_logs s \<and>
   webhook_logs (snd (refundWorker a s refundId)) = webhook_logs s \<and>
   webhook_logs (snd (processRefund a s paymentId n reason key)) = webhook_logs s \<and>
   webhook_logs (snd (post_refunds a s merchantId paymentId amount reason')) = webhook_logs s \<and>
   webhook_logs (snd (post_payments a s merchantId order_id amount' pay_method key)) = webhook_logs s"
proof (intro conjI)
  show "\<exists>new. webhook_logs (snd (webhookWorker a hmac post s job)) = webhook_logs s @ new \<and>
          length new \<le> 1"
    by (rule webhookWorker_appends)
  show "length (webhook_logs (snd (post_webhook_retry a json_parse s merchantId webhook_id))) =
     length (webhook_logs s)"
    by (simp add: retry_logs)
  show "\<forall>i < length (webhook_logs s).
      webhook_logs (snd (post_webhook_retry a json_parse s merchantId webhook_id)) ! i =
        (if wl_id (webhook_logs s ! i) = webhook_id \<and>
            find (\<lambda>w. wl_id w = webhook_id \<and> wl_merchant_id w = Some merchantId) (webhook_logs s)
              \<noteq> None
         then reset_for_retry a (webhook_logs s ! i) else webhook_logs s ! i)"
    by (simp add: retry_logs)
qed (rule others_keep_logs)+

text \<open>The amended C9 at the failed row above: position 0 of the log is reset in place by
  the retry, and a failing delivery at attempt 5 for the same merchant appends a second
  row behind it.\<close>

theorem webhook_log_append_or_reset_witness:
  "(0::nat) < length (webhook_logs ex_logged) \<and>
   length (webhook_logs (snd (post_webhook_retry ex_amb2 Some ex_logged ''m_A'' ''wh_1''))) = 1 \<and>
   webhook_logs (snd (post_webhook_retry ex_amb2 Some ex_logged ''m_A'' ''wh_1'')) ! 0 =
     reset_for_retry ex_amb2 ex_log \<and>
   webhook_logs (snd (post_webhook_retry ex_amb2 Some ex_logged ''m_B'' ''wh_1'')) ! 0 = ex_log \<and>
   take 1 (webhook_logs (snd (webhookWorker (ex_clock 0) ex_hmac ex_endpoint_down ex_logged
                                (ex_job\<lparr>wj_attempt := Some 5\<rparr>)))) = [ex_log] \<and>
   length (webhook_logs (snd (webhookWorker (ex_clock 0) ex_hmac ex_endpoint_down ex_logged
                                (ex_job\<lparr>wj_attempt := Some 5\<rparr>)))) \<le> 2"
proof -
  have l: "webhook_logs ex_logged = [ex_log]" by (simp add: ex_logged_def)
  have f: "find (\<lambda>w. wl_id w = ''wh_1'' \<and> wl_merchant_id w = Some ''m_A'') (webhook_logs ex_logged)
             \<noteq> None"
      "find (\<lambda>w. wl_id w = ''wh_1'' \<and> wl_merchant_id w = Some ''m_B'') (webhook_logs ex_logged)
             = None"
      "wl_id ex_log = ''wh_1''"
    by (simp_all add: ex_logged_def ex_log_def)
  note t = webhook_log_append_or_reset
             [where s = ex_logged and a = ex_amb2 and json_parse = Some and merchantId = "''m_A''"
                and webhook_id = "''wh_1''"]
  note u = webhook_log_append_or_reset
             [where s = ex_logged and a = ex_amb2 and json_parse = Some and merchantId = "''m_B''"
                and webhook_id = "''wh_1''"]
  note w = webhook_log_append_or_reset
             [where s = ex_logged and a = "ex_clock 0" and hmac = ex_hmac and post = ex_endpoint_down
                and job = "ex_job\<lparr>wj_attempt := Some 5\<rparr>"]
  have c0: "(0::nat) < length (webhook_logs ex_logged)" by (simp add: l)
  have c1: "length (webhook_logs (snd (post_webhook_retry ex_amb2 Some ex_logged ''m_A'' ''wh_1''))) = 1"
    using t[THEN conjunct2, THEN conjunct1] by (simp add: l)
  have c2: "webhook_logs (snd (post_webhook_retry ex_amb2 Some ex_logged ''m_A'' ''wh_1'')) ! 0 =
     reset_for_retry ex_amb2 ex_log"
    using t[THEN conjunct2, THEN conjunct2, THEN conjunct1, THEN spec, THEN mp, OF c0] f
    by (simp add: l)
  have c3: "webhook_logs (snd (post_webhook_retry ex_amb2 Some ex_logged ''m_B'' ''wh_1'')) ! 0 = ex_log"
    using u[THEN conjunct2, THEN conjunct2, THEN conjunct1, THEN spec, THEN mp, OF c0] f
    by (simp add: l)
  from w[THEN conjunct1] obtain new where new:
      "webhook_logs (snd (webhookWorker (ex_clock 0) ex_hmac ex_endpoint_down ex_logged
                       (ex_job\<lparr>wj_attempt := Some 5\<rparr>))) = webhook_logs ex_logged @ new"
      "length new \<le> 1"
    by (elim exE conjE)
  have c4: "take 1 (webhook_logs (snd (webhookWorker (ex_clock 0) ex_hmac ex_endpoint_down ex_logged
                                (ex_job\<lparr>wj_attempt := Some 5\<rparr>)))) = [ex_log]"
    by (simp add: new(1) l)
  have c5: "length (webhook_logs (snd (webhookWorker (ex_clock 0) ex_hmac ex_endpoint_down ex_logged
                                (ex_job\<lparr>wj_attempt := Some 5\<rparr>)))) \<le> 2"
    using new(2) by (simp add: new(1) l)
  show ?thesis by (intro conjI c0 c1 c2 c3 c4 c5)
qed

end
